theory Spec2Isabelle
  imports Complex_Main
begin

section \<open>The coordinate data model of \<^verbatim>\<open>src/data_model.py\<close>\<close>

text \<open>
  The module describes coordinates of gridded data (classes \<^verbatim>\<open>DMCoordinate\<close>,
  \<^verbatim>\<open>DMLongitudeCoordinate\<close>, ...), the aggregate \<^verbatim>\<open>DMDimensions\<close> that validates
  a tuple of dimension coordinates and a set of scalar coordinates, and
  \<^verbatim>\<open>DMCoordinateBounds\<close>, which is linked to its coordinate in both directions.

  Python objects have identity and are mutated in place (\<^verbatim>\<open>coord.bounds = coord_bounds\<close>),
  so coordinates and bounds objects live in an explicit store and are named by references.
  The decorator \<^verbatim>\<open>util.mdtf_dataclass\<close> is not part of the module; the classes are read as
  standard data classes: the annotated attributes are the fields, the constructor assigns
  them and then runs \<^verbatim>\<open>__post_init__\<close>, equality compares the fields that have
  \<^verbatim>\<open>compare=True\<close>, instances accept attribute assignment (\<^verbatim>\<open>__post_init__\<close> assigns
  \<^verbatim>\<open>self.axes\<close>) and can be members of a set (\<^verbatim>\<open>scalar_coords\<close>).
\<close>

subsection \<open>Axis kinds\<close>

datatype DMAxis = DMAxis_X | DMAxis_Y | DMAxis_Z | DMAxis_T | DMAxis_BOUNDS | DMAxis_OTHER

text \<open>The \<^verbatim>\<open>name\<close> attribute of an enumeration member.\<close>

fun DMAxis_name :: "DMAxis \<Rightarrow> string" where
  "DMAxis_name DMAxis_X = ''X''"
| "DMAxis_name DMAxis_Y = ''Y''"
| "DMAxis_name DMAxis_Z = ''Z''"
| "DMAxis_name DMAxis_T = ''T''"
| "DMAxis_name DMAxis_BOUNDS = ''BOUNDS''"
| "DMAxis_name DMAxis_OTHER = ''OTHER''"

definition spatiotemporal_names :: "string list" where
  "spatiotemporal_names = [''X'', ''Y'', ''Z'', ''T'']"

subsection \<open>Values held by fields\<close>

type_synonym ref = nat

text \<open>
  Modelled from the spec: the module \<^verbatim>\<open>datelabel\<close> is not part of the sources. A date
  range is an opaque value that supports equality and has one distinguished member, the
  placeholder \<^verbatim>\<open>FXDateRange\<close> of time-independent data; a date frequency is an opaque value.
\<close>

datatype AbstractDateRange = FXDateRange | DateRange int int

type_synonym AbstractDateFrequency = string

text \<open>The type \<^verbatim>\<open>typing.Union[int, float]\<close> of a scalar coordinate's value; it is only stored.\<close>

datatype number = IntVal int | FloatVal real

text \<open>
  What \<^verbatim>\<open>dataclasses.asdict\<close> builds: the values of the fields, with every data class
  instance replaced by the dictionary of its fields, recursively.
\<close>

datatype pyval =
    VNone
  | VStr string
  | VAxis DMAxis
  | VNum number
  | VRange AbstractDateRange
  | VTuple "pyval list"
  | VSet "pyval list"
  | VDict "(string \<times> pyval) list"

text \<open>
  The \<^verbatim>\<open>bounds\<close> attribute of a coordinate: \<^verbatim>\<open>None\<close>, a reference to a
  \<^verbatim>\<open>DMCoordinateBounds\<close> object, or (after a pass through \<^verbatim>\<open>dataclasses.asdict\<close>) a
  dictionary.
\<close>

datatype bounds_val = BNone | BRef ref | BDict "(string \<times> pyval) list"

subsection \<open>Coordinate classes\<close>

text \<open>
  One constructor per class, with the instance attributes in the order of the class
  body (inherited fields first). \<^verbatim>\<open>DMBoundsDimension\<close> has the single field \<^verbatim>\<open>name\<close>; its
  second component is the instance attribute \<^verbatim>\<open>bounds\<close> that an assignment would create
  over the class attribute \<^verbatim>\<open>bounds = None\<close>.
\<close>

datatype coord =
    DMCoordinate string string string DMAxis bounds_val
  | DMLongitudeCoordinate string bounds_val
  | DMLatitudeCoordinate string bounds_val
  | DMVerticalCoordinate string string string string bounds_val
  | DMParametricVerticalCoordinate string string string string bounds_val
      string string "string option"
  | DMTimeCoordinate string string string "AbstractDateRange option"
      "AbstractDateFrequency option" bounds_val
  | DMBoundsDimension string bounds_val
  | DMScalarCoordinate string string string DMAxis bounds_val "number option"
  | DMScalarVerticalCoordinate string string string string bounds_val "number option"

text \<open>The attributes of the interface \<^verbatim>\<open>AbstractDMCoordinate\<close>.\<close>

fun c_name :: "coord \<Rightarrow> string" where
  "c_name (DMCoordinate n sn u a b) = n"
| "c_name (DMLongitudeCoordinate n b) = n"
| "c_name (DMLatitudeCoordinate n b) = n"
| "c_name (DMVerticalCoordinate n sn u p b) = n"
| "c_name (DMParametricVerticalCoordinate n sn u p b csn lgn ft) = n"
| "c_name (DMTimeCoordinate n u cal r f b) = n"
| "c_name (DMBoundsDimension n b) = n"
| "c_name (DMScalarCoordinate n sn u a b v) = n"
| "c_name (DMScalarVerticalCoordinate n sn u p b v) = n"

fun c_standard_name :: "coord \<Rightarrow> string" where
  "c_standard_name (DMCoordinate n sn u a b) = sn"
| "c_standard_name (DMLongitudeCoordinate n b) = ''longitude''"
| "c_standard_name (DMLatitudeCoordinate n b) = ''latitude''"
| "c_standard_name (DMVerticalCoordinate n sn u p b) = sn"
| "c_standard_name (DMParametricVerticalCoordinate n sn u p b csn lgn ft) = sn"
| "c_standard_name (DMTimeCoordinate n u cal r f b) = ''time''"
| "c_standard_name (DMBoundsDimension n b) = ''bounds''"
| "c_standard_name (DMScalarCoordinate n sn u a b v) = sn"
| "c_standard_name (DMScalarVerticalCoordinate n sn u p b v) = sn"

fun c_units :: "coord \<Rightarrow> string" where
  "c_units (DMCoordinate n sn u a b) = u"
| "c_units (DMLongitudeCoordinate n b) = ''degrees_E''"
| "c_units (DMLatitudeCoordinate n b) = ''degrees_N''"
| "c_units (DMVerticalCoordinate n sn u p b) = u"
| "c_units (DMParametricVerticalCoordinate n sn u p b csn lgn ft) = u"
| "c_units (DMTimeCoordinate n u cal r f b) = u"
| "c_units (DMBoundsDimension n b) = ''1''"
| "c_units (DMScalarCoordinate n sn u a b v) = u"
| "c_units (DMScalarVerticalCoordinate n sn u p b v) = u"

fun c_axis :: "coord \<Rightarrow> DMAxis" where
  "c_axis (DMCoordinate n sn u a b) = a"
| "c_axis (DMLongitudeCoordinate n b) = DMAxis_X"
| "c_axis (DMLatitudeCoordinate n b) = DMAxis_Y"
| "c_axis (DMVerticalCoordinate n sn u p b) = DMAxis_Z"
| "c_axis (DMParametricVerticalCoordinate n sn u p b csn lgn ft) = DMAxis_Z"
| "c_axis (DMTimeCoordinate n u cal r f b) = DMAxis_T"
| "c_axis (DMBoundsDimension n b) = DMAxis_BOUNDS"
| "c_axis (DMScalarCoordinate n sn u a b v) = a"
| "c_axis (DMScalarVerticalCoordinate n sn u p b v) = DMAxis_Z"

fun c_bounds :: "coord \<Rightarrow> bounds_val" where
  "c_bounds (DMCoordinate n sn u a b) = b"
| "c_bounds (DMLongitudeCoordinate n b) = b"
| "c_bounds (DMLatitudeCoordinate n b) = b"
| "c_bounds (DMVerticalCoordinate n sn u p b) = b"
| "c_bounds (DMParametricVerticalCoordinate n sn u p b csn lgn ft) = b"
| "c_bounds (DMTimeCoordinate n u cal r f b) = b"
| "c_bounds (DMBoundsDimension n b) = b"
| "c_bounds (DMScalarCoordinate n sn u a b v) = b"
| "c_bounds (DMScalarVerticalCoordinate n sn u p b v) = b"

text \<open>The class of an instance.\<close>

fun class_of :: "coord \<Rightarrow> string" where
  "class_of (DMCoordinate n sn u a b) = ''DMCoordinate''"
| "class_of (DMLongitudeCoordinate n b) = ''DMLongitudeCoordinate''"
| "class_of (DMLatitudeCoordinate n b) = ''DMLatitudeCoordinate''"
| "class_of (DMVerticalCoordinate n sn u p b) = ''DMVerticalCoordinate''"
| "class_of (DMParametricVerticalCoordinate n sn u p b csn lgn ft) =
     ''DMParametricVerticalCoordinate''"
| "class_of (DMTimeCoordinate n u cal r f b) = ''DMTimeCoordinate''"
| "class_of (DMBoundsDimension n b) = ''DMBoundsDimension''"
| "class_of (DMScalarCoordinate n sn u a b v) = ''DMScalarCoordinate''"
| "class_of (DMScalarVerticalCoordinate n sn u p b v) = ''DMScalarVerticalCoordinate''"

text \<open>The attribute \<^verbatim>\<open>value\<close> of the scalar classes; the other classes do not have it.\<close>

fun c_value :: "coord \<Rightarrow> number option option" where
  "c_value (DMScalarCoordinate n sn u a b v) = Some v"
| "c_value (DMScalarVerticalCoordinate n sn u p b v) = Some v"
| "c_value c = None"

text \<open>The assignment \<^verbatim>\<open>coord.bounds = x\<close>.\<close>

fun set_bounds :: "coord \<Rightarrow> bounds_val \<Rightarrow> coord" where
  "set_bounds (DMCoordinate n sn u a b) x = DMCoordinate n sn u a x"
| "set_bounds (DMLongitudeCoordinate n b) x = DMLongitudeCoordinate n x"
| "set_bounds (DMLatitudeCoordinate n b) x = DMLatitudeCoordinate n x"
| "set_bounds (DMVerticalCoordinate n sn u p b) x = DMVerticalCoordinate n sn u p x"
| "set_bounds (DMParametricVerticalCoordinate n sn u p b csn lgn ft) x =
     DMParametricVerticalCoordinate n sn u p x csn lgn ft"
| "set_bounds (DMTimeCoordinate n u cal r f b) x = DMTimeCoordinate n u cal r f x"
| "set_bounds (DMBoundsDimension n b) x = DMBoundsDimension n x"
| "set_bounds (DMScalarCoordinate n sn u a b v) x = DMScalarCoordinate n sn u a x v"
| "set_bounds (DMScalarVerticalCoordinate n sn u p b v) x =
     DMScalarVerticalCoordinate n sn u p x v"

subsection \<open>Errors\<close>

text \<open>
  Every \<^verbatim>\<open>raise\<close> of the module and every exception of the interpreter that the modelled
  code can meet. The three \<^verbatim>\<open>ValueError\<close>s of the constructors carry what their messages
  print: the axis name and the two coordinates; the name of the bounds object and its
  scalar coordinates or its dimensions.
\<close>

datatype error =
    DuplicateAxis string ref ref
  | BoundsWithScalarCoords string "ref list"
  | BoundsImproperDims string "ref list"
  | DifferentCoordinateType
  | MissingBoundsCoordinate
  | AssertionError
  | AttributeError
  | TypeError
  | KeyError
  | RecursionError

subsection \<open>The aggregates and the store\<close>

text \<open>
  \<^verbatim>\<open>dims\<close> is the tuple of dimension coordinates and \<^verbatim>\<open>scalar_coords\<close> the set of scalar
  coordinates, as the list of its members in the order the set iterates them. The
  dictionaries \<^verbatim>\<open>axes\<close> and \<^verbatim>\<open>phys_axes\<close> map an axis name to \<^verbatim>\<open>None\<close> or a coordinate.
\<close>

record DMDimensions =
  dims :: "ref list"
  scalar_coords :: "ref list"
  axes :: "string \<rightharpoonup> ref option"
  phys_axes :: "string \<rightharpoonup> ref option"

record DMAuxiliaryCoordinate = DMDimensions +
  name :: string
  standard_name :: string
  units :: string

type_synonym DMCoordinateBounds = DMAuxiliaryCoordinate

type_synonym DMVariable = DMAuxiliaryCoordinate

record store =
  coords :: "ref \<Rightarrow> coord"
  bounds_objs :: "ref \<Rightarrow> DMCoordinateBounds"
  fresh :: ref

subsection \<open>\<^verbatim>\<open>DMDimensions.__post_init__\<close>\<close>

text \<open>\<^verbatim>\<open>getattr(c.axis, 'name', '')\<close>, where \<^verbatim>\<open>c\<close> is a reference into the store.\<close>

abbreviation axis_of :: "(ref \<Rightarrow> coord) \<Rightarrow> ref \<Rightarrow> string" where
  "axis_of h c \<equiv> DMAxis_name (c_axis (h c))"

text \<open>The loop that validates that no axis is defined twice; \<^verbatim>\<open>temp_d\<close> is its dictionary.\<close>

fun check_duplicates :: "(ref \<Rightarrow> coord) \<Rightarrow> (string \<rightharpoonup> ref) \<Rightarrow> ref list \<Rightarrow> error + (string \<rightharpoonup> ref)" where
  "check_duplicates h temp_d [] = Inr temp_d"
| "check_duplicates h temp_d (c # cs) =
     (let axis = axis_of h c in
      case temp_d axis of
        Some c' \<Rightarrow>
          if axis \<noteq> ''OTHER'' then Inl (DuplicateAxis axis c c')
          else check_duplicates h (temp_d(axis \<mapsto> c)) cs
      | None \<Rightarrow> check_duplicates h (temp_d(axis \<mapsto> c)) cs)"

text \<open>The two loops that fill \<^verbatim>\<open>axes\<close> from \<^verbatim>\<open>dims\<close> and \<^verbatim>\<open>phys_axes\<close> from \<^verbatim>\<open>scalar_coords\<close>.\<close>

fun fill_axes :: "(ref \<Rightarrow> coord) \<Rightarrow> (string \<rightharpoonup> ref option) \<Rightarrow> ref list \<Rightarrow> (string \<rightharpoonup> ref option)" where
  "fill_axes h d [] = d"
| "fill_axes h d (c # cs) =
     (let axis = axis_of h c in
      if axis \<in> set spatiotemporal_names then fill_axes h (d(axis \<mapsto> Some c)) cs
      else fill_axes h d cs)"

definition empty_axes :: "string \<rightharpoonup> ref option" where
  "empty_axes = map_of (map (\<lambda>x. (x, None)) spatiotemporal_names)"

definition DMDimensions_post_init ::
  "(ref \<Rightarrow> coord) \<Rightarrow> 'a DMDimensions_scheme \<Rightarrow> error + 'a DMDimensions_scheme" where
  "DMDimensions_post_init h self =
     (case check_duplicates h Map.empty (dims self @ scalar_coords self) of
        Inl e \<Rightarrow> Inl e
      | Inr temp_d \<Rightarrow>
          (let ax = fill_axes h empty_axes (dims self) in
           Inr (self\<lparr>axes := ax, phys_axes := fill_axes h ax (scalar_coords self)\<rparr>)))"

text \<open>The constructor \<^verbatim>\<open>DMDimensions(dims, scalar_coords)\<close>.\<close>

definition DMDimensions_init :: "(ref \<Rightarrow> coord) \<Rightarrow> ref list \<Rightarrow> ref list \<Rightarrow> error + DMDimensions" where
  "DMDimensions_init h ds scs =
     DMDimensions_post_init h
       \<lparr>dims = ds, scalar_coords = scs, axes = Map.empty, phys_axes = Map.empty\<rparr>"

subsection \<open>Accessors of \<^verbatim>\<open>DMDimensions\<close>\<close>

text \<open>Subscription \<^verbatim>\<open>d[key]\<close> of a dictionary.\<close>

definition getitem :: "(string \<rightharpoonup> 'v) \<Rightarrow> string \<Rightarrow> error + 'v" where
  "getitem d key = (case d key of None \<Rightarrow> Inl KeyError | Some v \<Rightarrow> Inr v)"

definition DMDimensions_X :: "'a DMDimensions_scheme \<Rightarrow> error + ref option" where
  "DMDimensions_X self = getitem (axes self) ''X''"

definition DMDimensions_Y :: "'a DMDimensions_scheme \<Rightarrow> error + ref option" where
  "DMDimensions_Y self = getitem (axes self) ''Y''"

definition DMDimensions_Z :: "'a DMDimensions_scheme \<Rightarrow> error + ref option" where
  "DMDimensions_Z self = getitem (axes self) ''Z''"

definition DMDimensions_T :: "'a DMDimensions_scheme \<Rightarrow> error + ref option" where
  "DMDimensions_T self = getitem (axes self) ''T''"

text \<open>
  The field \<^verbatim>\<open>range\<close> and the property \<^verbatim>\<open>is_static\<close> are defined by \<^verbatim>\<open>DMTimeCoordinate\<close>
  alone; reading them from an instance of another class raises \<^verbatim>\<open>AttributeError\<close>.
\<close>

fun c_range :: "coord \<Rightarrow> error + AbstractDateRange option" where
  "c_range (DMTimeCoordinate n u cal r f b) = Inr r"
| "c_range c = Inl AttributeError"

fun DMTimeCoordinate_is_static :: "coord \<Rightarrow> error + bool" where
  "DMTimeCoordinate_is_static (DMTimeCoordinate n u cal r f b) = Inr (r = Some FXDateRange)"
| "DMTimeCoordinate_is_static c = Inl AttributeError"

definition DMDimensions_is_static :: "(ref \<Rightarrow> coord) \<Rightarrow> 'a DMDimensions_scheme \<Rightarrow> error + bool" where
  "DMDimensions_is_static h self =
     (case DMDimensions_T self of
        Inl e \<Rightarrow> Inl e
      | Inr None \<Rightarrow> Inr True
      | Inr (Some t) \<Rightarrow> DMTimeCoordinate_is_static (h t))"

subsection \<open>\<^verbatim>\<open>DMDimensions.replace_date_range\<close>\<close>

text \<open>Creation of an object: the store hands out the next unused reference.\<close>

definition new_coord :: "store \<Rightarrow> coord \<Rightarrow> ref \<times> store" where
  "new_coord st c =
     (fresh st, st\<lparr>coords := (coords st)(fresh st := c), fresh := Suc (fresh st)\<rparr>)"

definition new_bounds :: "store \<Rightarrow> DMCoordinateBounds \<Rightarrow> ref \<times> store" where
  "new_bounds st b =
     (fresh st, st\<lparr>bounds_objs := (bounds_objs st)(fresh st := b), fresh := Suc (fresh st)\<rparr>)"

text \<open>
  \<^verbatim>\<open>dataclasses.replace(obj, range=new_range)\<close>: a new instance of the class of \<^verbatim>\<open>obj\<close> with
  the fields of \<^verbatim>\<open>obj\<close>, except \<^verbatim>\<open>range\<close>. Only \<^verbatim>\<open>DMTimeCoordinate\<close> has a field of that
  name; the constructor of any other class rejects the keyword with \<^verbatim>\<open>TypeError\<close>.
\<close>

fun replace_range :: "coord \<Rightarrow> AbstractDateRange option \<Rightarrow> error + coord" where
  "replace_range (DMTimeCoordinate n u cal r f b) new_range =
     Inr (DMTimeCoordinate n u cal new_range f b)"
| "replace_range c new_range = Inl TypeError"

text \<open>
  The assignment \<^verbatim>\<open>self.T = new_T\<close>. The class defines \<^verbatim>\<open>T\<close> as a property with a getter
  and no setter, so the assignment raises \<^verbatim>\<open>AttributeError\<close> and stores nothing.
\<close>

definition DMDimensions_set_T :: "'a DMDimensions_scheme \<Rightarrow> ref \<Rightarrow> error + 'a DMDimensions_scheme" where
  "DMDimensions_set_T self new_T = Inl AttributeError"

text \<open>
  The method returns nothing; the model returns the outcome together with the store and
  the aggregate as the call leaves them, also when it raises.
\<close>

definition DMDimensions_replace_date_range ::
  "store \<Rightarrow> 'a DMDimensions_scheme \<Rightarrow> AbstractDateRange option
     \<Rightarrow> (error + unit) \<times> store \<times> 'a DMDimensions_scheme" where
  "DMDimensions_replace_date_range st self new_range =
     (case DMDimensions_is_static (coords st) self of
        Inl e \<Rightarrow> (Inl e, st, self)
      | Inr True \<Rightarrow> (Inl AssertionError, st, self)
      | Inr False \<Rightarrow>
          (case DMDimensions_T self of
             Inl e \<Rightarrow> (Inl e, st, self)
           | Inr None \<Rightarrow> (Inl TypeError, st, self)
           | Inr (Some t) \<Rightarrow>
               (case replace_range (coords st t) new_range of
                  Inl e \<Rightarrow> (Inl e, st, self)
                | Inr obj \<Rightarrow>
                    (let (new_T, st') = new_coord st obj in
                     case DMDimensions_set_T self new_T of
                       Inl e \<Rightarrow> (Inl e, st', self)
                     | Inr self' \<Rightarrow> (Inr (), st', self')))))"

subsection \<open>\<^verbatim>\<open>DMCoordinateBounds\<close>\<close>

definition DMCoordinateBounds_post_init ::
  "(ref \<Rightarrow> coord) \<Rightarrow> DMCoordinateBounds \<Rightarrow> error + DMCoordinateBounds" where
  "DMCoordinateBounds_post_init h self =
     (case DMDimensions_post_init h self of
        Inl e \<Rightarrow> Inl e
      | Inr self' \<Rightarrow>
          if scalar_coords self' \<noteq> [] then
            Inl (BoundsWithScalarCoords (name self') (scalar_coords self'))
          else if length (dims self') \<noteq> 2
                  \<or> DMAxis_BOUNDS \<notin> set (map (\<lambda>c. c_axis (h c)) (dims self')) then
            Inl (BoundsImproperDims (name self') (dims self'))
          else Inr self')"

text \<open>The constructor \<^verbatim>\<open>DMCoordinateBounds(name, standard_name, units, dims, scalar_coords)\<close>.\<close>

definition DMCoordinateBounds_init ::
  "(ref \<Rightarrow> coord) \<Rightarrow> string \<Rightarrow> string \<Rightarrow> string \<Rightarrow> ref list \<Rightarrow> ref list
     \<Rightarrow> error + DMCoordinateBounds" where
  "DMCoordinateBounds_init h n sn u ds scs =
     DMCoordinateBounds_post_init h
       \<lparr>dims = ds, scalar_coords = scs, axes = Map.empty, phys_axes = Map.empty,
        name = n, standard_name = sn, units = u\<rparr>"

text \<open>The property \<^verbatim>\<open>coord\<close>: the first member of \<^verbatim>\<open>dims\<close> that is not on the bounds axis.\<close>

fun first_non_bounds :: "(ref \<Rightarrow> coord) \<Rightarrow> ref list \<Rightarrow> error + ref" where
  "first_non_bounds h [] = Inl MissingBoundsCoordinate"
| "first_non_bounds h (c # cs) =
     (if c_axis (h c) \<noteq> DMAxis_BOUNDS then Inr c else first_non_bounds h cs)"

definition DMCoordinateBounds_coord :: "(ref \<Rightarrow> coord) \<Rightarrow> DMCoordinateBounds \<Rightarrow> error + ref" where
  "DMCoordinateBounds_coord h self = first_non_bounds h (dims self)"

text \<open>
  The second argument of \<^verbatim>\<open>from_coordinate\<close> is a \<^verbatim>\<open>DMBoundsDimension\<close> instance, which is used
  as it is, or the name of one to create. A reference stands for an instance, so that
  \<^verbatim>\<open>isinstance(bounds_dim, DMBoundsDimension)\<close> holds of it; \<open>bounds_dim_ok\<close> says that
  the store agrees.
\<close>

datatype bounds_dim_arg = BoundsDimObject ref | BoundsDimName string

definition bounds_dim_ok :: "store \<Rightarrow> bounds_dim_arg \<Rightarrow> bool" where
  "bounds_dim_ok st bounds_dim =
     (case bounds_dim of
        BoundsDimObject r \<Rightarrow> class_of (coords st r) = ''DMBoundsDimension''
      | BoundsDimName s \<Rightarrow> True)"

definition DMCoordinateBounds_from_coordinate ::
  "store \<Rightarrow> ref \<Rightarrow> bounds_dim_arg \<Rightarrow> error + (ref \<times> store)" where
  "DMCoordinateBounds_from_coordinate st coord bounds_dim =
     (let c = coords st coord;
          (bd, st1) = (case bounds_dim of
                         BoundsDimObject r \<Rightarrow> (r, st)
                       | BoundsDimName s \<Rightarrow> new_coord st (DMBoundsDimension s BNone))
      in case DMCoordinateBounds_init (coords st1) (c_name c) (c_standard_name c) (c_units c)
                [coord, bd] [] of
           Inl e \<Rightarrow> Inl e
         | Inr obj \<Rightarrow>
             (let (coord_bounds, st2) = new_bounds st1 obj in
              Inr (coord_bounds,
                   st2\<lparr>coords := (coords st2)(coord := set_bounds (coords st2 coord) (BRef coord_bounds))\<rparr>)))"

text \<open>The two kinds of \<^verbatim>\<open>ValueError\<close> that the constructors raise.\<close>

fun is_duplicate_axis_error :: "error \<Rightarrow> bool" where
  "is_duplicate_axis_error (DuplicateAxis a c c') = True"
| "is_duplicate_axis_error e = False"

fun is_malformed_bounds_error :: "error \<Rightarrow> bool" where
  "is_malformed_bounds_error (BoundsWithScalarCoords n scs) = True"
| "is_malformed_bounds_error (BoundsImproperDims n ds) = True"
| "is_malformed_bounds_error e = False"

subsection \<open>Equality of coordinates\<close>

text \<open>
  The generated \<^verbatim>\<open>__eq__\<close> of a data class answers only for two instances of the same
  class, and compares the tuples of their fields that have \<^verbatim>\<open>compare=True\<close>. Tuples are
  compared item by item: the first pair of items that differ decides, and two items are
  equal when they are the same object or \<^verbatim>\<open>==\<close> says so. A comparison of items may fail
  to return (the generated \<^verbatim>\<open>__eq__\<close> of two bounds objects recurses through their
  dimensions), which is the value \<open>None\<close>.
\<close>

fun tuple_eq :: "bool option list \<Rightarrow> bool option" where
  "tuple_eq [] = Some True"
| "tuple_eq (None # items) = None"
| "tuple_eq (Some False # items) = Some False"
| "tuple_eq (Some True # items) = tuple_eq items"

fun number_eq :: "number \<Rightarrow> number \<Rightarrow> bool" where
  "number_eq (IntVal i) (IntVal j) = (i = j)"
| "number_eq (IntVal i) (FloatVal y) = (of_int i = y)"
| "number_eq (FloatVal x) (IntVal j) = (x = of_int j)"
| "number_eq (FloatVal x) (FloatVal y) = (x = y)"

fun value_eq :: "number option \<Rightarrow> number option \<Rightarrow> bool" where
  "value_eq None None = True"
| "value_eq (Some v) (Some w) = number_eq v w"
| "value_eq v w = False"

text \<open>
  Two values of the field \<^verbatim>\<open>bounds\<close> as items of a tuple. The parameter \<open>beq\<close> is
  \<^verbatim>\<open>==\<close> on two values that are not the same object; the module leaves it to the generated
  methods of \<^verbatim>\<open>DMCoordinateBounds\<close>.
\<close>

definition bounds_item_eq ::
  "(bounds_val \<Rightarrow> bounds_val \<Rightarrow> bool option) \<Rightarrow> bounds_val \<Rightarrow> bounds_val \<Rightarrow> bool option" where
  "bounds_item_eq beq b b' = (if b = b' then Some True else beq b b')"

text \<open>The fields that take part in comparisons, in order.\<close>

datatype field_val =
    FStr string
  | FAxis DMAxis
  | FBounds bounds_val
  | FRange "AbstractDateRange option"
  | FFrequency "AbstractDateFrequency option"
  | FValue "number option"

text \<open>
  \<^verbatim>\<open>formula_terms\<close> is declared with \<^verbatim>\<open>compare=False\<close> and is left out. The fields of a base
  class come first; \<^verbatim>\<open>DMScalarCoordinateMixin\<close> is the last base of the scalar classes, so
  its field \<^verbatim>\<open>value\<close> is their first.
\<close>

fun compare_fields :: "coord \<Rightarrow> field_val list" where
  "compare_fields (DMCoordinate n sn u a b) = [FStr n, FStr sn, FStr u, FAxis a, FBounds b]"
| "compare_fields (DMLongitudeCoordinate n b) = [FStr n, FBounds b]"
| "compare_fields (DMLatitudeCoordinate n b) = [FStr n, FBounds b]"
| "compare_fields (DMVerticalCoordinate n sn u p b) =
     [FStr n, FStr sn, FStr u, FStr p, FBounds b]"
| "compare_fields (DMParametricVerticalCoordinate n sn u p b csn lgn ft) =
     [FStr n, FStr sn, FStr u, FStr p, FBounds b, FStr csn, FStr lgn]"
| "compare_fields (DMTimeCoordinate n u cal r f b) =
     [FStr n, FStr u, FStr cal, FRange r, FFrequency f, FBounds b]"
| "compare_fields (DMBoundsDimension n b) = [FStr n]"
| "compare_fields (DMScalarCoordinate n sn u a b v) =
     [FValue v, FStr n, FStr sn, FStr u, FAxis a, FBounds b]"
| "compare_fields (DMScalarVerticalCoordinate n sn u p b v) =
     [FValue v, FStr n, FStr sn, FStr u, FStr p, FBounds b]"

definition item_eq ::
  "(bounds_val \<Rightarrow> bounds_val \<Rightarrow> bool option) \<Rightarrow> field_val \<Rightarrow> field_val \<Rightarrow> bool option" where
  "item_eq beq x y =
     (case x of
        FBounds b \<Rightarrow> (case y of FBounds b' \<Rightarrow> bounds_item_eq beq b b' | _ \<Rightarrow> Some False)
      | FValue v \<Rightarrow> (case y of FValue w \<Rightarrow> Some (value_eq v w) | _ \<Rightarrow> Some False)
      | _ \<Rightarrow> Some (x = y))"

definition coord_eq :: "(bounds_val \<Rightarrow> bounds_val \<Rightarrow> bool option) \<Rightarrow> coord \<Rightarrow> coord \<Rightarrow> bool option" where
  "coord_eq beq c c' =
     (if class_of c = class_of c' then
        tuple_eq (map (\<lambda>(x, y). item_eq beq x y) (zip (compare_fields c) (compare_fields c')))
      else Some False)"

subsection \<open>\<^verbatim>\<open>DMScalarCoordinateMixin.from_coordinate\<close>\<close>

text \<open>The two classes that inherit the class method.\<close>

datatype scalar_class = DMScalarCoordinate_class | DMScalarVerticalCoordinate_class

text \<open>
  \<^verbatim>\<open>issubclass(cls, coord.__class__)\<close>: the class of \<^verbatim>\<open>coord\<close> is \<^verbatim>\<open>cls\<close> or one of its bases.
\<close>

fun mro :: "scalar_class \<Rightarrow> string list" where
  "mro DMScalarCoordinate_class =
     [''DMScalarCoordinate'', ''DMCoordinate'', ''DMScalarCoordinateMixin'', ''object'']"
| "mro DMScalarVerticalCoordinate_class =
     [''DMScalarVerticalCoordinate'', ''DMVerticalCoordinate'', ''DMScalarCoordinateMixin'',
      ''object'']"

definition issubclass :: "scalar_class \<Rightarrow> coord \<Rightarrow> bool" where
  "issubclass cls c = (class_of c \<in> set (mro cls))"

text \<open>
  \<^verbatim>\<open>dataclasses.asdict\<close> copies the fields of its argument, and converts every field that
  holds a data class instance into a dictionary in the same way. Strings, numbers and
  enumeration members are copied as they are; a \<^verbatim>\<open>bounds\<close> that refers to a
  \<^verbatim>\<open>DMCoordinateBounds\<close> object is converted. The parameter \<open>conv\<close> is that conversion of
  the bounds object behind a reference: the dictionary it builds, or \<open>None\<close> when the
  recursion through the members of \<^verbatim>\<open>dims\<close> does not end and the interpreter raises
  \<^verbatim>\<open>RecursionError\<close>.
\<close>

fun asdict_bounds :: "(ref \<Rightarrow> (string \<times> pyval) list option) \<Rightarrow> bounds_val \<Rightarrow> error + bounds_val" where
  "asdict_bounds conv BNone = Inr BNone"
| "asdict_bounds conv (BRef r) =
     (case conv r of None \<Rightarrow> Inl RecursionError | Some d \<Rightarrow> Inr (BDict d))"
| "asdict_bounds conv (BDict d) = Inr (BDict d)"

text \<open>
  \<^verbatim>\<open>cls(**kwargs)\<close>, where \<^verbatim>\<open>kwargs\<close> holds the fields of \<^verbatim>\<open>coord\<close>, its converted \<^verbatim>\<open>bounds\<close>
  and \<^verbatim>\<open>value\<close>. A keyword that is not a field of \<^verbatim>\<open>cls\<close> is a \<^verbatim>\<open>TypeError\<close>.
\<close>

fun scalar_instance :: "scalar_class \<Rightarrow> coord \<Rightarrow> bounds_val \<Rightarrow> number option \<Rightarrow> error + coord" where
  "scalar_instance DMScalarCoordinate_class c b' val =
     (case c of
        DMCoordinate n sn u a b \<Rightarrow> Inr (DMScalarCoordinate n sn u a b' val)
      | DMScalarCoordinate n sn u a b v \<Rightarrow> Inr (DMScalarCoordinate n sn u a b' val)
      | _ \<Rightarrow> Inl TypeError)"
| "scalar_instance DMScalarVerticalCoordinate_class c b' val =
     (case c of
        DMVerticalCoordinate n sn u p b \<Rightarrow> Inr (DMScalarVerticalCoordinate n sn u p b' val)
      | DMScalarVerticalCoordinate n sn u p b v \<Rightarrow> Inr (DMScalarVerticalCoordinate n sn u p b' val)
      | _ \<Rightarrow> Inl TypeError)"

definition DMScalarCoordinateMixin_from_coordinate ::
  "(ref \<Rightarrow> (string \<times> pyval) list option) \<Rightarrow> scalar_class \<Rightarrow> store \<Rightarrow> ref \<Rightarrow> number option
     \<Rightarrow> error + (ref \<times> store)" where
  "DMScalarCoordinateMixin_from_coordinate conv cls st coord val =
     (if \<not> issubclass cls (coords st coord) then Inl DifferentCoordinateType
      else case asdict_bounds conv (c_bounds (coords st coord)) of
             Inl e \<Rightarrow> Inl e
           | Inr b' \<Rightarrow>
               (case scalar_instance cls (coords st coord) b' val of
                  Inl e \<Rightarrow> Inl e
                | Inr obj \<Rightarrow> Inr (new_coord st obj)))"

subsection \<open>Example objects\<close>

text \<open>
  A latitude, a scalar vertical coordinate at 500 hPa, a time coordinate with a range of
  several years, a longitude, a second latitude, a bounds dimension, a vertical
  coordinate that already has bounds, and coordinates without a distinguished axis.
\<close>

definition example_coords :: "ref \<Rightarrow> coord" where
  "example_coords r =
     (if r = 0 then DMLatitudeCoordinate ''lat'' BNone
      else if r = 1 then
        DMScalarVerticalCoordinate ''plev'' ''air_pressure'' ''hPa'' ''down'' BNone
          (Some (IntVal 500))
      else if r = 2 then
        DMTimeCoordinate ''time'' ''days since 1970-01-01'' ''noleap''
          (Some (DateRange 1980 1990)) (Some ''mon'') BNone
      else if r = 3 then DMLongitudeCoordinate ''lon'' BNone
      else if r = 4 then DMLatitudeCoordinate ''lat2'' BNone
      else if r = 5 then DMBoundsDimension ''bnds'' BNone
      else if r = 6 then DMVerticalCoordinate ''lev'' ''altitude'' ''m'' ''up'' (BRef 9)
      else DMCoordinate ''ens'' ''realization'' ''1'' DMAxis_OTHER BNone)"

definition example_bounds :: "ref \<Rightarrow> DMCoordinateBounds" where
  "example_bounds r =
     \<lparr>dims = [6, 5], scalar_coords = [],
      axes = [''X'' \<mapsto> None, ''Y'' \<mapsto> None, ''Z'' \<mapsto> Some 6, ''T'' \<mapsto> None],
      phys_axes = [''X'' \<mapsto> None, ''Y'' \<mapsto> None, ''Z'' \<mapsto> Some 6, ''T'' \<mapsto> None],
      name = ''lev'', standard_name = ''altitude'', units = ''m''\<rparr>"

definition example_store :: store where
  "example_store = \<lparr>coords = example_coords, bounds_objs = example_bounds, fresh = 10\<rparr>"

section \<open>Properties\<close>

subsection \<open>The validation loop and the axis dictionaries\<close>

lemma DMAxis_name_inj: "DMAxis_name a = DMAxis_name b \<longleftrightarrow> a = b"
  by (cases a; cases b) simp_all

lemma DMAxis_name_OTHER: "DMAxis_name a = ''OTHER'' \<longleftrightarrow> a = DMAxis_OTHER"
  by (cases a) simp_all

lemma DMAxis_name_spatiotemporal:
  "DMAxis_name a \<in> set spatiotemporal_names \<longleftrightarrow> a \<in> {DMAxis_X, DMAxis_Y, DMAxis_Z, DMAxis_T}"
  by (cases a) (simp_all add: spatiotemporal_names_def)

lemma check_duplicates_ok_iff:
  "(\<exists>m. check_duplicates h temp_d xs = Inr m) \<longleftrightarrow>
     distinct (map (c_axis \<circ> h) (filter (\<lambda>c. c_axis (h c) \<noteq> DMAxis_OTHER) xs))
     \<and> (\<forall>c \<in> set xs. c_axis (h c) \<noteq> DMAxis_OTHER \<longrightarrow> temp_d (axis_of h c) = None)"
proof (induction xs arbitrary: temp_d)
  case Nil
  then show ?case by simp
next
  case (Cons c cs)
  show ?case
  proof (cases "c_axis (h c) = DMAxis_OTHER")
    case True
    then have "check_duplicates h temp_d (c # cs) = check_duplicates h (temp_d(''OTHER'' \<mapsto> c)) cs"
      by (simp add: Let_def split: option.splits)
    with True show ?thesis
      by (simp add: Cons.IH DMAxis_name_OTHER)
  next
    case False
    show ?thesis
    proof (cases "temp_d (axis_of h c)")
      case None
      with False have "check_duplicates h temp_d (c # cs) = check_duplicates h (temp_d(axis_of h c \<mapsto> c)) cs"
        by (simp add: Let_def)
      with False None show ?thesis
        by (simp add: Cons.IH DMAxis_name_inj image_iff) (metis (mono_tags, lifting))
    next
      case (Some c')
      with False show ?thesis
        by (auto simp: DMAxis_name_OTHER Let_def)
    qed
  qed
qed

lemma check_duplicates_error:
  "check_duplicates h temp_d xs = Inl e \<Longrightarrow>
     \<exists>pre c suf c'. xs = pre @ c # suf \<and> e = DuplicateAxis (axis_of h c) c c'
        \<and> c_axis (h c) \<noteq> DMAxis_OTHER
        \<and> (temp_d (axis_of h c) = Some c'
            \<or> (\<exists>p1 p2. pre = p1 @ c' # p2 \<and> c_axis (h c') = c_axis (h c)))"
proof (induction xs arbitrary: temp_d)
  case Nil
  then show ?case by simp
next
  case (Cons x xs)
  show ?case
  proof (cases "\<exists>c'. temp_d (axis_of h x) = Some c' \<and> axis_of h x \<noteq> ''OTHER''")
    case True
    then obtain c' where c': "temp_d (axis_of h x) = Some c'" "axis_of h x \<noteq> ''OTHER''" by blast
    with Cons.prems have "e = DuplicateAxis (axis_of h x) x c'" by (auto simp: Let_def)
    with c' show ?thesis
      by (intro exI[of _ "[]"] exI[of _ x] exI[of _ xs] exI[of _ c']) (simp add: DMAxis_name_OTHER)
  next
    case False
    then have "check_duplicates h temp_d (x # xs) = check_duplicates h (temp_d(axis_of h x \<mapsto> x)) xs"
      by (auto simp: Let_def split: option.splits)
    with Cons.prems have "check_duplicates h (temp_d(axis_of h x \<mapsto> x)) xs = Inl e" by simp
    from Cons.IH[OF this] obtain pre c suf c' where
      xs: "xs = pre @ c # suf" and e: "e = DuplicateAxis (axis_of h c) c c'"
      and no: "c_axis (h c) \<noteq> DMAxis_OTHER"
      and d: "(temp_d(axis_of h x \<mapsto> x)) (axis_of h c) = Some c'
            \<or> (\<exists>p1 p2. pre = p1 @ c' # p2 \<and> c_axis (h c') = c_axis (h c))" by blast
    from d show ?thesis
    proof
      assume a: "(temp_d(axis_of h x \<mapsto> x)) (axis_of h c) = Some c'"
      show ?thesis
      proof (cases "axis_of h x = axis_of h c")
        case True
        with a have "c' = x" by simp
        with True xs e no show ?thesis
          by (intro exI[of _ "x # pre"] exI[of _ c] exI[of _ suf] exI[of _ c'])
             (auto simp: DMAxis_name_inj intro: exI[of _ "[]"])
      next
        case False
        with a have "temp_d (axis_of h c) = Some c'" by simp
        with xs e no show ?thesis
          by (intro exI[of _ "x # pre"] exI[of _ c] exI[of _ suf] exI[of _ c']) simp
      qed
    next
      assume "\<exists>p1 p2. pre = p1 @ c' # p2 \<and> c_axis (h c') = c_axis (h c)"
      then obtain p1 p2 where "pre = p1 @ c' # p2" "c_axis (h c') = c_axis (h c)" by blast
      with xs e no show ?thesis
        by (intro exI[of _ "x # pre"] exI[of _ c] exI[of _ suf] exI[of _ c'])
           (auto intro: exI[of _ "x # p1"])
    qed
  qed
qed


lemma fill_axes_other: "key \<notin> set spatiotemporal_names \<Longrightarrow> fill_axes h d xs key = d key"
  by (induction xs arbitrary: d) (auto simp: Let_def)

lemma fill_axes_lookup:
  "DMAxis_name k \<in> set spatiotemporal_names \<Longrightarrow>
   fill_axes h d xs (DMAxis_name k) =
     (if filter (\<lambda>c. c_axis (h c) = k) xs = [] then d (DMAxis_name k)
      else Some (Some (last (filter (\<lambda>c. c_axis (h c) = k) xs))))"
proof (induction xs arbitrary: d)
  case Nil
  then show ?case by simp
next
  case (Cons c cs)
  show ?case
  proof (cases "c_axis (h c) = k")
    case True
    with Cons.prems have "fill_axes h d (c # cs) (DMAxis_name k)
        = fill_axes h (d(DMAxis_name k \<mapsto> Some c)) cs (DMAxis_name k)"
      by (simp add: Let_def)
    with True Cons.prems show ?thesis
      by (simp add: Cons.IH)
  next
    case False
    have "fill_axes h d (c # cs) (DMAxis_name k) = fill_axes h d cs (DMAxis_name k)"
    proof (cases "axis_of h c \<in> set spatiotemporal_names")
      case True
      with False Cons.prems show ?thesis
        by (simp add: Let_def Cons.IH DMAxis_name_inj del: fill_axes.simps(2))
           (simp add: Let_def Cons.IH DMAxis_name_inj)
    next
      case False
      then show ?thesis by (simp add: Let_def)
    qed
    with False Cons.prems show ?thesis
      by (simp add: Cons.IH)
  qed
qed

lemma fill_axes_values:
  "fill_axes h d xs key = Some (Some c) \<Longrightarrow> c \<in> set xs \<or> d key = Some (Some c)"
proof (induction xs arbitrary: d)
  case Nil
  then show ?case by simp
next
  case (Cons a xs)
  show ?case
  proof (cases "axis_of h a \<in> set spatiotemporal_names")
    case True
    with Cons.prems have "fill_axes h (d(axis_of h a \<mapsto> Some a)) xs key = Some (Some c)"
      by (simp add: Let_def)
    from Cons.IH[OF this] show ?thesis
      by (auto split: if_splits)
  next
    case False
    with Cons.prems have "fill_axes h d xs key = Some (Some c)"
      by (simp add: Let_def)
    from Cons.IH[OF this] show ?thesis by auto
  qed
qed

lemma empty_axes_lookup:
  "DMAxis_name k \<in> set spatiotemporal_names \<Longrightarrow> empty_axes (DMAxis_name k) = Some None"
  by (cases k) (simp_all add: empty_axes_def spatiotemporal_names_def)

lemma empty_axes_values: "empty_axes key \<noteq> Some (Some c)"
  by (simp add: empty_axes_def spatiotemporal_names_def)

lemma distinct_filter_le1:
  "distinct (map f (filter P xs)) \<Longrightarrow> (\<And>x. f x = k \<Longrightarrow> P x)
     \<Longrightarrow> length (filter (\<lambda>c. f c = k) xs) \<le> 1"
proof (induction xs)
  case Nil
  then show ?case by simp
next
  case (Cons x xs)
  show ?case
  proof (cases "f x = k")
    case True
    with Cons.prems have "P x" by blast
    with Cons.prems True have "k \<notin> f ` {y \<in> set xs. P y}" by simp
    with Cons.prems have "filter (\<lambda>c. f c = k) xs = []"
      by (auto simp: filter_empty_conv)
    with True show ?thesis by simp
  next
    case False
    with Cons show ?thesis by (auto split: if_splits)
  qed
qed

subsection \<open>Construction of \<^verbatim>\<open>DMDimensions\<close>\<close>

lemma post_init_ok_iff:
  "(\<exists>d. DMDimensions_post_init h self = Inr d) \<longleftrightarrow>
     distinct (map (c_axis \<circ> h) (filter (\<lambda>c. c_axis (h c) \<noteq> DMAxis_OTHER) (dims self @ scalar_coords self)))"
proof -
  have "(\<exists>d. DMDimensions_post_init h self = Inr d) \<longleftrightarrow>
        (\<exists>m. check_duplicates h Map.empty (dims self @ scalar_coords self) = Inr m)"
    by (auto simp: DMDimensions_post_init_def Let_def split: sum.splits)
  then show ?thesis
    by (simp add: check_duplicates_ok_iff)
qed

lemma post_init_result:
  "DMDimensions_post_init h self = Inr d \<Longrightarrow>
     d = self\<lparr>axes := fill_axes h empty_axes (dims self),
              phys_axes := fill_axes h (fill_axes h empty_axes (dims self)) (scalar_coords self)\<rparr>"
  by (auto simp: DMDimensions_post_init_def Let_def split: sum.splits)

text \<open>
  Claim C2. When two entries of the concatenation of \<^verbatim>\<open>dims\<close> and \<^verbatim>\<open>scalar_coords\<close> carry
  the same axis kind other than \<^verbatim>\<open>OTHER\<close> (the kind \<^verbatim>\<open>BOUNDS\<close> included), the construction
  fails with the duplicate-axis error, and the error names the axis and two entries at
  different positions of the concatenation that both carry it. The statement is about
  \<^verbatim>\<open>__post_init__\<close>, which every constructor of the class and of its subclasses runs.
\<close>

theorem post_init_duplicate_axis:
  assumes "dims self @ scalar_coords self = as @ c1 # bs @ c2 # cs"
    and "c_axis (h c1) = c_axis (h c2)"
    and "c_axis (h c1) \<noteq> DMAxis_OTHER"
  shows "\<exists>c c' pre mid suf.
           DMDimensions_post_init h self = Inl (DuplicateAxis (DMAxis_name (c_axis (h c))) c c')
         \<and> dims self @ scalar_coords self = pre @ c' # mid @ c # suf
         \<and> c_axis (h c') = c_axis (h c) \<and> c_axis (h c) \<noteq> DMAxis_OTHER"
proof -
  let ?xs = "dims self @ scalar_coords self"
  from assms have "\<not> distinct (map (c_axis \<circ> h) (filter (\<lambda>c. c_axis (h c) \<noteq> DMAxis_OTHER) ?xs))"
    by simp
  then have "\<not> (\<exists>m. check_duplicates h Map.empty ?xs = Inr m)"
    by (simp add: check_duplicates_ok_iff)
  then obtain e where e: "check_duplicates h Map.empty ?xs = Inl e"
    by (cases "check_duplicates h Map.empty ?xs") auto
  from check_duplicates_error[OF e] obtain pre c suf c' p1 p2 where
    "?xs = pre @ c # suf" "e = DuplicateAxis (axis_of h c) c c'" "c_axis (h c) \<noteq> DMAxis_OTHER"
    "pre = p1 @ c' # p2" "c_axis (h c') = c_axis (h c)"
    by auto
  moreover from e have "DMDimensions_post_init h self = Inl e"
    by (simp add: DMDimensions_post_init_def)
  ultimately show ?thesis
    by (intro exI[of _ c] exI[of _ c'] exI[of _ p1] exI[of _ p2] exI[of _ suf]) simp
qed

text \<open>
  Claim C3. When the entries of \<^verbatim>\<open>dims\<close> and \<^verbatim>\<open>scalar_coords\<close> that are not of kind \<^verbatim>\<open>OTHER\<close>
  carry pairwise distinct axis kinds (any number of entries of kind \<^verbatim>\<open>OTHER\<close> is allowed),
  the construction succeeds, and for each of the kinds X, Y, Z and T the dictionary
  \<^verbatim>\<open>axes\<close> holds the one entry of \<^verbatim>\<open>dims\<close> of that kind, or \<^verbatim>\<open>None\<close> when \<^verbatim>\<open>dims\<close> has none.
\<close>

theorem distinct_axes_construct:
  assumes "distinct (map (c_axis \<circ> h) (filter (\<lambda>c. c_axis (h c) \<noteq> DMAxis_OTHER) (ds @ scs)))"
  shows "\<exists>d. DMDimensions_init h ds scs = Inr d \<and> dims d = ds \<and> scalar_coords d = scs
           \<and> (\<forall>k \<in> {DMAxis_X, DMAxis_Y, DMAxis_Z, DMAxis_T}.
                 case filter (\<lambda>c. c_axis (h c) = k) ds of
                   [] \<Rightarrow> axes d (DMAxis_name k) = Some None
                 | [c] \<Rightarrow> axes d (DMAxis_name k) = Some (Some c)
                 | _ \<Rightarrow> False)"
proof -
  let ?self = "\<lparr>dims = ds, scalar_coords = scs, axes = Map.empty, phys_axes = Map.empty\<rparr>"
  from assms have "\<exists>d. DMDimensions_post_init h ?self = Inr d"
    by (simp add: post_init_ok_iff)
  then obtain d where d: "DMDimensions_post_init h ?self = Inr d" by blast
  note r = post_init_result[OF d]
  have ax: "axes d = fill_axes h empty_axes ds" by (subst r) simp
  have "case filter (\<lambda>c. c_axis (h c) = k) ds of
          [] \<Rightarrow> axes d (DMAxis_name k) = Some None
        | [c] \<Rightarrow> axes d (DMAxis_name k) = Some (Some c)
        | _ \<Rightarrow> False"
    if k: "k \<in> {DMAxis_X, DMAxis_Y, DMAxis_Z, DMAxis_T}" for k
  proof -
    from k have st: "DMAxis_name k \<in> set spatiotemporal_names"
      by (simp add: DMAxis_name_spatiotemporal)
    from assms have "distinct (map (c_axis \<circ> h) (filter (\<lambda>c. c_axis (h c) \<noteq> DMAxis_OTHER) ds))"
      by simp
    then have "length (filter (\<lambda>c. (c_axis \<circ> h) c = k) ds) \<le> 1"
      by (rule distinct_filter_le1) (use k in auto)
    then have le: "length (filter (\<lambda>c. c_axis (h c) = k) ds) \<le> 1" by (simp add: comp_def)
    show ?thesis
    proof (cases "filter (\<lambda>c. c_axis (h c) = k) ds")
      case Nil
      with st show ?thesis by (simp add: ax fill_axes_lookup empty_axes_lookup)
    next
      case (Cons c cs)
      with le have "cs = []" by simp
      with Cons st show ?thesis by (simp add: ax fill_axes_lookup)
    qed
  qed
  with d r show ?thesis
    by (auto simp: DMDimensions_init_def)
qed

text \<open>
  Claim C4. In a successfully constructed aggregate, a scalar coordinate of kind X, Y, Z
  or T is no value of \<^verbatim>\<open>axes\<close>, the slot of its kind in \<^verbatim>\<open>axes\<close> is \<^verbatim>\<open>None\<close>, and the slot of
  its kind in \<^verbatim>\<open>phys_axes\<close> holds it.
\<close>

theorem scalar_coord_phys_axes:
  assumes "DMDimensions_post_init h self = Inr d"
    and "s \<in> set (scalar_coords self)"
    and "c_axis (h s) \<in> {DMAxis_X, DMAxis_Y, DMAxis_Z, DMAxis_T}"
  shows "(\<forall>key. axes d key \<noteq> Some (Some s))
       \<and> axes d (DMAxis_name (c_axis (h s))) = Some None
       \<and> phys_axes d (DMAxis_name (c_axis (h s))) = Some (Some s)"
proof -
  let ?k = "c_axis (h s)"
  let ?P = "\<lambda>c. c_axis (h c) \<noteq> DMAxis_OTHER"
  note r = post_init_result[OF assms(1)]
  have ax: "axes d = fill_axes h empty_axes (dims self)" by (subst r) simp
  have pax: "phys_axes d = fill_axes h (fill_axes h empty_axes (dims self)) (scalar_coords self)"
    by (subst r) simp
  from assms(3) have st: "DMAxis_name ?k \<in> set spatiotemporal_names"
    by (simp add: DMAxis_name_spatiotemporal)
  from assms(3) have no: "?k \<noteq> DMAxis_OTHER" by auto
  from assms(1) have dist: "distinct (map (c_axis \<circ> h) (filter ?P (dims self @ scalar_coords self)))"
    using post_init_ok_iff[of h self] by blast
  have nodim: "c_axis (h c) \<noteq> ?k" if "c \<in> set (dims self)" for c
  proof
    assume eq: "c_axis (h c) = ?k"
    with no that have "?k \<in> (c_axis \<circ> h) ` set (filter ?P (dims self))"
      by (auto simp: image_iff intro!: bexI[of _ c])
    moreover from no assms(2) have "?k \<in> (c_axis \<circ> h) ` set (filter ?P (scalar_coords self))"
      by (auto simp: image_iff intro!: bexI[of _ s])
    ultimately show False using dist by auto
  qed
  then have fd: "filter (\<lambda>c. c_axis (h c) = ?k) (dims self) = []"
    by (auto simp: filter_empty_conv)
  have a1: "axes d key \<noteq> Some (Some s)" for key
  proof
    assume "axes d key = Some (Some s)"
    then have "s \<in> set (dims self) \<or> empty_axes key = Some (Some s)"
      unfolding ax by (rule fill_axes_values)
    with nodim[of s] show False by (auto simp: empty_axes_values)
  qed
  have a2: "axes d (DMAxis_name ?k) = Some None"
    using st fd by (simp add: ax fill_axes_lookup empty_axes_lookup)
  from dist have "distinct (map (c_axis \<circ> h) (filter ?P (scalar_coords self)))" by simp
  then have "length (filter (\<lambda>c. (c_axis \<circ> h) c = ?k) (scalar_coords self)) \<le> 1"
    by (rule distinct_filter_le1) (use no in auto)
  then have le: "length (filter (\<lambda>c. c_axis (h c) = ?k) (scalar_coords self)) \<le> 1"
    by (simp add: comp_def)
  from assms(2) have mem: "s \<in> set (filter (\<lambda>c. c_axis (h c) = ?k) (scalar_coords self))" by simp
  have fs: "filter (\<lambda>c. c_axis (h c) = ?k) (scalar_coords self) = [s]"
  proof (cases "filter (\<lambda>c. c_axis (h c) = ?k) (scalar_coords self)")
    case Nil
    with mem show ?thesis by simp
  next
    case (Cons x xs)
    with le have "xs = []" by simp
    with Cons mem show ?thesis by simp
  qed
  have a3: "phys_axes d (DMAxis_name ?k) = Some (Some s)"
    using st fs by (simp add: pax fill_axes_lookup)
  from a1 a2 a3 show ?thesis by blast
qed

text \<open>
  Claim C9. In a successfully constructed aggregate the accessor \<^verbatim>\<open>T\<close> returns, and
  \<^verbatim>\<open>is_static\<close> is true exactly when \<^verbatim>\<open>T\<close> is \<^verbatim>\<open>None\<close> or the range of the T coordinate is
  \<^verbatim>\<open>FXDateRange\<close>; it is false for a T coordinate whose range is any other value.
\<close>

theorem is_static_iff:
  assumes "DMDimensions_post_init h self = Inr d"
  shows "(\<exists>v. DMDimensions_T d = Inr v)
       \<and> (DMDimensions_is_static h d = Inr True \<longleftrightarrow>
            DMDimensions_T d = Inr None
          \<or> (\<exists>t. DMDimensions_T d = Inr (Some t) \<and> c_range (h t) = Inr (Some FXDateRange)))
       \<and> (\<forall>t r. DMDimensions_T d = Inr (Some t) \<and> c_range (h t) = Inr r \<and> r \<noteq> Some FXDateRange
             \<longrightarrow> DMDimensions_is_static h d = Inr False)"
proof -
  note r = post_init_result[OF assms]
  have ax: "axes d = fill_axes h empty_axes (dims self)" by (subst r) simp
  have "DMAxis_name DMAxis_T \<in> set spatiotemporal_names" by (simp add: spatiotemporal_names_def)
  from fill_axes_lookup[OF this, of h empty_axes "dims self"] empty_axes_lookup[OF this]
  have "\<exists>v. axes d ''T'' = Some v" by (auto simp: ax split: if_splits)
  then have 1: "\<exists>v. DMDimensions_T d = Inr v"
    by (auto simp: DMDimensions_T_def getitem_def)
  have 2: "DMDimensions_is_static h d = Inr True \<longleftrightarrow>
            DMDimensions_T d = Inr None
          \<or> (\<exists>t. DMDimensions_T d = Inr (Some t) \<and> c_range (h t) = Inr (Some FXDateRange))"
  proof (cases "DMDimensions_T d")
    case (Inl e)
    then show ?thesis by (simp add: DMDimensions_is_static_def)
  next
    case (Inr v)
    show ?thesis
    proof (cases v)
      case None
      with Inr show ?thesis by (simp add: DMDimensions_is_static_def)
    next
      case (Some t)
      with Inr show ?thesis by (cases "h t") (simp_all add: DMDimensions_is_static_def)
    qed
  qed
  have 3: "DMDimensions_is_static h d = Inr False"
    if "DMDimensions_T d = Inr (Some t)" "c_range (h t) = Inr r" "r \<noteq> Some FXDateRange" for t r
    using that by (cases "h t") (simp_all add: DMDimensions_is_static_def)
  from 1 2 3 show ?thesis by blast
qed

subsection \<open>The theorems at the example objects\<close>

lemma c_axis_example [simp]:
  "c_axis (example_coords 0) = DMAxis_Y" "c_axis (example_coords 1) = DMAxis_Z"
  "c_axis (example_coords 2) = DMAxis_T" "c_axis (example_coords 3) = DMAxis_X"
  "c_axis (example_coords 4) = DMAxis_Y" "c_axis (example_coords 5) = DMAxis_BOUNDS"
  "c_axis (example_coords 6) = DMAxis_Z" "c_axis (example_coords 7) = DMAxis_OTHER"
  "c_axis (example_coords 8) = DMAxis_OTHER" "c_axis (example_coords (Suc 0)) = DMAxis_Z"
  by (simp_all add: example_coords_def)

theorem post_init_duplicate_axis_witness:
  "\<exists>c c' pre mid suf.
      DMDimensions_post_init example_coords
        \<lparr>dims = [3, 0, 7], scalar_coords = [8, 4], axes = Map.empty, phys_axes = Map.empty\<rparr>
       = Inl (DuplicateAxis (DMAxis_name (c_axis (example_coords c))) c c')
    \<and> [3, 0, 7] @ [8, 4] = pre @ c' # mid @ c # suf
    \<and> c_axis (example_coords c') = c_axis (example_coords c)
    \<and> c_axis (example_coords c) \<noteq> DMAxis_OTHER"
  using post_init_duplicate_axis [of "\<lparr>dims = [3, 0, 7], scalar_coords = [8, 4], axes = Map.empty, phys_axes = Map.empty\<rparr>"
      "[3]" 0 "[7, 8]" 4 "[]" example_coords]
  by simp

theorem distinct_axes_construct_witness:
  "\<exists>d. DMDimensions_init example_coords [7, 3, 0, 8, 2] [] = Inr d \<and> dims d = [7, 3, 0, 8, 2]
      \<and> scalar_coords d = []
      \<and> axes d ''X'' = Some (Some 3) \<and> axes d ''Y'' = Some (Some 0)
      \<and> axes d ''Z'' = Some None \<and> axes d ''T'' = Some (Some 2)"
  using distinct_axes_construct [of example_coords "[7, 3, 0, 8, 2]" "[]"]
  by (auto simp: comp_def)

theorem scalar_coord_phys_axes_witness:
  "\<exists>d. DMDimensions_post_init example_coords
          \<lparr>dims = [0], scalar_coords = [1], axes = Map.empty, phys_axes = Map.empty\<rparr> = Inr d
     \<and> axes d ''Z'' = Some None \<and> phys_axes d ''Z'' = Some (Some 1)
     \<and> (\<forall>key. axes d key \<noteq> Some (Some 1))"
proof -
  let ?self = "\<lparr>dims = [0], scalar_coords = [1], axes = Map.empty, phys_axes = Map.empty\<rparr>"
  have "\<exists>d. DMDimensions_post_init example_coords ?self = Inr d"
    by (simp add: DMDimensions_post_init_def Let_def)
  then obtain d where d: "DMDimensions_post_init example_coords ?self = Inr d" by blast
  from scalar_coord_phys_axes [OF d, of 1] d show ?thesis by simp
qed

theorem is_static_iff_witness:
  "\<exists>d. DMDimensions_post_init example_coords
          \<lparr>dims = [0, 2], scalar_coords = [], axes = Map.empty, phys_axes = Map.empty\<rparr> = Inr d
     \<and> DMDimensions_T d = Inr (Some 2)
     \<and> DMDimensions_is_static example_coords d = Inr False"
proof -
  let ?self = "\<lparr>dims = [0, 2], scalar_coords = [], axes = Map.empty, phys_axes = Map.empty\<rparr>"
  have "\<exists>d. DMDimensions_post_init example_coords ?self = Inr d"
    by (simp add: DMDimensions_post_init_def Let_def)
  then obtain d where d: "DMDimensions_post_init example_coords ?self = Inr d" by blast
  have T: "DMDimensions_T d = Inr (Some 2)"
    using d by (auto simp: DMDimensions_post_init_def Let_def DMDimensions_T_def getitem_def
        spatiotemporal_names_def empty_axes_def)
  have r: "c_range (example_coords 2) = Inr (Some (DateRange 1980 1990))"
    by (simp add: example_coords_def)
  from is_static_iff [OF d] T r d show ?thesis by auto
qed

subsection \<open>Construction of \<^verbatim>\<open>DMCoordinateBounds\<close>\<close>

lemma check_duplicates_cong:
  "(\<And>c. c \<in> set xs \<Longrightarrow> c_axis (h c) = c_axis (h' c))
     \<Longrightarrow> check_duplicates h temp_d xs = check_duplicates h' temp_d xs"
  by (induction xs arbitrary: temp_d) (simp_all add: Let_def split: option.splits)

lemma fill_axes_cong:
  "(\<And>c. c \<in> set xs \<Longrightarrow> c_axis (h c) = c_axis (h' c))
     \<Longrightarrow> fill_axes h d xs = fill_axes h' d xs"
  by (induction xs arbitrary: d) (simp_all add: Let_def)

lemma DMCoordinateBounds_init_cases:
  "DMCoordinateBounds_init h n sn u ds scs =
     (case DMDimensions_post_init h
             \<lparr>dims = ds, scalar_coords = scs, axes = Map.empty, phys_axes = Map.empty,
              name = n, standard_name = sn, units = u\<rparr> of
        Inl e \<Rightarrow> Inl e
      | Inr self' \<Rightarrow>
          if scs \<noteq> [] then Inl (BoundsWithScalarCoords n scs)
          else if length ds \<noteq> 2 \<or> DMAxis_BOUNDS \<notin> set (map (\<lambda>c. c_axis (h c)) ds)
          then Inl (BoundsImproperDims n ds)
          else Inr self')"
  by (auto simp: DMCoordinateBounds_init_def DMCoordinateBounds_post_init_def
      split: sum.splits dest!: post_init_result)

lemma DMDimensions_post_init_cong:
  assumes "\<And>c. c \<in> set (dims self @ scalar_coords self) \<Longrightarrow> c_axis (h c) = c_axis (h' c)"
  shows "DMDimensions_post_init h self = DMDimensions_post_init h' self"
proof -
  have 1: "check_duplicates h Map.empty (dims self @ scalar_coords self)
         = check_duplicates h' Map.empty (dims self @ scalar_coords self)"
    using assms by (rule check_duplicates_cong)
  have 2: "fill_axes h d (dims self) = fill_axes h' d (dims self)" for d
    using assms by (intro fill_axes_cong) simp
  have 3: "fill_axes h d (scalar_coords self) = fill_axes h' d (scalar_coords self)" for d
    using assms by (intro fill_axes_cong) simp
  show ?thesis
    unfolding DMDimensions_post_init_def 1 2 3 ..
qed

lemma DMCoordinateBounds_init_cong:
  assumes "\<And>c. c \<in> set (ds @ scs) \<Longrightarrow> c_axis (h c) = c_axis (h' c)"
  shows "DMCoordinateBounds_init h n sn u ds scs = DMCoordinateBounds_init h' n sn u ds scs"
proof -
  let ?self = "\<lparr>dims = ds, scalar_coords = scs, axes = Map.empty, phys_axes = Map.empty,
                name = n, standard_name = sn, units = u\<rparr>"
  have 1: "DMDimensions_post_init h ?self = DMDimensions_post_init h' ?self"
    using assms by (intro DMDimensions_post_init_cong) simp
  have 2: "map (\<lambda>c. c_axis (h c)) ds = map (\<lambda>c. c_axis (h' c)) ds"
    using assms by simp
  show ?thesis
    unfolding DMCoordinateBounds_init_cases 1 2 ..
qed

lemma post_init_error:
  "DMDimensions_post_init h self = Inl e \<Longrightarrow> is_duplicate_axis_error e"
  by (auto simp: DMDimensions_post_init_def Let_def split: sum.splits
      dest!: check_duplicates_error)

lemma DMCoordinateBounds_init_two:
  assumes "c_axis (h a) \<noteq> DMAxis_BOUNDS" and "c_axis (h b) = DMAxis_BOUNDS"
  shows "DMCoordinateBounds_init h n sn u [a, b] [] =
           Inr \<lparr>dims = [a, b], scalar_coords = [],
                axes = fill_axes h empty_axes [a, b], phys_axes = fill_axes h empty_axes [a, b],
                name = n, standard_name = sn, units = u\<rparr>"
proof -
  let ?self = "\<lparr>dims = [a, b], scalar_coords = [], axes = Map.empty, phys_axes = Map.empty,
                name = n, standard_name = sn, units = u\<rparr>"
  from assms have "\<exists>d. DMDimensions_post_init h ?self = Inr d"
    by (subst post_init_ok_iff) auto
  then obtain d where d: "DMDimensions_post_init h ?self = Inr d" by blast
  from post_init_result[OF d] have "d = ?self\<lparr>axes := fill_axes h empty_axes [a, b],
       phys_axes := fill_axes h empty_axes [a, b]\<rparr>" by simp
  with d assms show ?thesis
    by (simp add: DMCoordinateBounds_init_cases)
qed

lemma DMCoordinateBounds_init_two':
  assumes "c_axis (h a) = DMAxis_BOUNDS" and "c_axis (h b) \<noteq> DMAxis_BOUNDS"
  shows "DMCoordinateBounds_init h n sn u [a, b] [] =
           Inr \<lparr>dims = [a, b], scalar_coords = [],
                axes = fill_axes h empty_axes [a, b], phys_axes = fill_axes h empty_axes [a, b],
                name = n, standard_name = sn, units = u\<rparr>"
proof -
  let ?self = "\<lparr>dims = [a, b], scalar_coords = [], axes = Map.empty, phys_axes = Map.empty,
                name = n, standard_name = sn, units = u\<rparr>"
  from assms have "\<exists>d. DMDimensions_post_init h ?self = Inr d"
    by (subst post_init_ok_iff) auto
  then obtain d where d: "DMDimensions_post_init h ?self = Inr d" by blast
  from post_init_result[OF d] have "d = ?self\<lparr>axes := fill_axes h empty_axes [a, b],
       phys_axes := fill_axes h empty_axes [a, b]\<rparr>" by simp
  with d assms show ?thesis
    by (simp add: DMCoordinateBounds_init_cases)
qed

text \<open>
  Claim C7, as amended. When \<^verbatim>\<open>scalar_coords\<close> is not empty, or \<^verbatim>\<open>dims\<close> does not have exactly
  two members, or no member of \<^verbatim>\<open>dims\<close> is of kind \<^verbatim>\<open>BOUNDS\<close>, the construction fails: with the
  duplicate-axis error when two entries of \<^verbatim>\<open>dims\<close> and \<^verbatim>\<open>scalar_coords\<close> share an axis kind
  other than \<^verbatim>\<open>OTHER\<close> (the validation of \<^verbatim>\<open>DMDimensions\<close> runs first), and with a
  malformed-bounds error otherwise. A construction with no scalar coordinates and exactly
  two members of \<^verbatim>\<open>dims\<close>, exactly one of them of kind \<^verbatim>\<open>BOUNDS\<close>, succeeds.
\<close>

theorem bounds_construction:
  "(scs \<noteq> [] \<or> length ds \<noteq> 2 \<or> DMAxis_BOUNDS \<notin> set (map (\<lambda>c. c_axis (h c)) ds) \<longrightarrow>
      (\<exists>e. DMCoordinateBounds_init h n sn u ds scs = Inl e
          \<and> (if distinct (map (c_axis \<circ> h)
                   (filter (\<lambda>c. c_axis (h c) \<noteq> DMAxis_OTHER) (ds @ scs)))
              then is_malformed_bounds_error e else is_duplicate_axis_error e)))
 \<and> (scs = [] \<and> length ds = 2 \<and> length (filter (\<lambda>c. c_axis (h c) = DMAxis_BOUNDS) ds) = 1 \<longrightarrow>
      (\<exists>b. DMCoordinateBounds_init h n sn u ds scs = Inr b \<and> dims b = ds
          \<and> scalar_coords b = [] \<and> name b = n \<and> standard_name b = sn \<and> units b = u))"
proof (intro conjI impI)
  let ?self = "\<lparr>dims = ds, scalar_coords = scs, axes = Map.empty, phys_axes = Map.empty,
                name = n, standard_name = sn, units = u\<rparr>"
  let ?D = "distinct (map (c_axis \<circ> h) (filter (\<lambda>c. c_axis (h c) \<noteq> DMAxis_OTHER) (ds @ scs)))"
  assume bad: "scs \<noteq> [] \<or> length ds \<noteq> 2 \<or> DMAxis_BOUNDS \<notin> set (map (\<lambda>c. c_axis (h c)) ds)"
  show "\<exists>e. DMCoordinateBounds_init h n sn u ds scs = Inl e
          \<and> (if ?D then is_malformed_bounds_error e else is_duplicate_axis_error e)"
  proof (cases "DMDimensions_post_init h ?self")
    case (Inl e)
    then have nd: "\<not> ?D" using post_init_ok_iff[of h ?self] by auto
    from Inl have dup: "is_duplicate_axis_error e" by (rule post_init_error)
    from Inl have i: "DMCoordinateBounds_init h n sn u ds scs = Inl e"
      by (simp add: DMCoordinateBounds_init_cases)
    show ?thesis
    proof (intro exI[of _ e] conjI)
      show "DMCoordinateBounds_init h n sn u ds scs = Inl e" by (rule i)
      show "if ?D then is_malformed_bounds_error e else is_duplicate_axis_error e"
        using nd dup by (simp only: if_False)
    qed
  next
    case (Inr d)
    then have d: "?D" using post_init_ok_iff[of h ?self] by auto
    from Inr bad have "\<exists>e. DMCoordinateBounds_init h n sn u ds scs = Inl e \<and> is_malformed_bounds_error e"
      by (auto simp: DMCoordinateBounds_init_cases)
    then obtain e where "DMCoordinateBounds_init h n sn u ds scs = Inl e" "is_malformed_bounds_error e"
      by blast
    then show ?thesis
      using d by (intro exI[of _ e] conjI) (simp_all only: if_True)
  qed
next
  assume ok: "scs = [] \<and> length ds = 2 \<and> length (filter (\<lambda>c. c_axis (h c) = DMAxis_BOUNDS) ds) = 1"
  then obtain a b where ds: "ds = [a, b]"
    by (cases ds; cases "tl ds") auto
  with ok have "c_axis (h a) \<noteq> DMAxis_BOUNDS \<and> c_axis (h b) = DMAxis_BOUNDS
              \<or> c_axis (h a) = DMAxis_BOUNDS \<and> c_axis (h b) \<noteq> DMAxis_BOUNDS"
    by (auto split: if_splits)
  with ok ds show "\<exists>b. DMCoordinateBounds_init h n sn u ds scs = Inr b \<and> dims b = ds
          \<and> scalar_coords b = [] \<and> name b = n \<and> standard_name b = sn \<and> units b = u"
    by (auto simp: DMCoordinateBounds_init_two DMCoordinateBounds_init_two')
qed

theorem bounds_construction_counterexample:
  "length [0, 4, 5 :: ref] \<noteq> 2
   \<and> DMCoordinateBounds_init example_coords ''lat_bnds'' ''latitude'' ''degrees_N'' [0, 4, 5] []
       = Inl (DuplicateAxis ''Y'' 4 0)
   \<and> \<not> is_malformed_bounds_error (DuplicateAxis ''Y'' 4 0)"
  by (simp add: DMCoordinateBounds_init_def DMCoordinateBounds_post_init_def
      DMDimensions_post_init_def Let_def)

theorem bounds_construction_witness:
  "(\<exists>e. DMCoordinateBounds_init example_coords ''lat_bnds'' ''latitude'' ''degrees_N'' [0, 3, 5] []
          = Inl e \<and> is_malformed_bounds_error e)
 \<and> (\<exists>e. DMCoordinateBounds_init example_coords ''lat_bnds'' ''latitude'' ''degrees_N'' [0, 4] []
          = Inl e \<and> is_duplicate_axis_error e)
 \<and> (\<exists>b. DMCoordinateBounds_init example_coords ''lat_bnds'' ''latitude'' ''degrees_N'' [0, 5] []
          = Inr b \<and> dims b = [0, 5] \<and> scalar_coords b = [] \<and> name b = ''lat_bnds'')"
  using bounds_construction [of "[]" "[0, 3, 5]" example_coords "''lat_bnds''" "''latitude''" "''degrees_N''"]
    bounds_construction [of "[]" "[0, 4]" example_coords "''lat_bnds''" "''latitude''" "''degrees_N''"]
    bounds_construction [of "[]" "[0, 5]" example_coords "''lat_bnds''" "''latitude''" "''degrees_N''"]
  by (auto simp: comp_def)

subsection \<open>Linking a coordinate and its bounds\<close>

lemma c_bounds_set_bounds: "c_bounds (set_bounds c x) = x"
  by (cases c) simp_all

lemma c_axis_set_bounds: "c_axis (set_bounds c x) = c_axis c"
  by (cases c) simp_all

lemma c_name_set_bounds: "c_name (set_bounds c x) = c_name c"
  by (cases c) simp_all

lemma c_standard_name_set_bounds: "c_standard_name (set_bounds c x) = c_standard_name c"
  by (cases c) simp_all

lemma c_units_set_bounds: "c_units (set_bounds c x) = c_units c"
  by (cases c) simp_all

lemma first_non_bounds_head:
  "c_axis (h c) \<noteq> DMAxis_BOUNDS \<Longrightarrow> first_non_bounds h (c # cs) = Inr c"
  by simp

lemma from_coordinate_result:
  assumes "(case bounds_dim of BoundsDimObject r \<Rightarrow> (r, st)
            | BoundsDimName s \<Rightarrow> new_coord st (DMBoundsDimension s BNone)) = (bd, st1)"
    and "DMCoordinateBounds_init (coords st1) (c_name (coords st coord))
           (c_standard_name (coords st coord)) (c_units (coords st coord)) [coord, bd] [] = Inr obj"
  shows "DMCoordinateBounds_from_coordinate st coord bounds_dim =
           Inr (fresh st1,
                st1\<lparr>bounds_objs := (bounds_objs st1)(fresh st1 := obj), fresh := Suc (fresh st1),
                    coords := (coords st1)(coord := set_bounds (coords st1 coord) (BRef (fresh st1)))\<rparr>)"
  using assms by (simp add: DMCoordinateBounds_from_coordinate_def Let_def new_bounds_def)

lemma from_coordinate_error:
  assumes "(case bounds_dim of BoundsDimObject r \<Rightarrow> (r, st)
            | BoundsDimName s \<Rightarrow> new_coord st (DMBoundsDimension s BNone)) = (bd, st1)"
    and "DMCoordinateBounds_init (coords st1) (c_name (coords st coord))
           (c_standard_name (coords st coord)) (c_units (coords st coord)) [coord, bd] [] = Inl e"
  shows "DMCoordinateBounds_from_coordinate st coord bounds_dim = Inl e"
  using assms by (simp add: DMCoordinateBounds_from_coordinate_def Let_def)

text \<open>
  Claim C6. For a coordinate \<open>coord\<close> of the store whose axis kind is not \<^verbatim>\<open>BOUNDS\<close> and a
  name \<open>s\<close>, \<^verbatim>\<open>DMCoordinateBounds.from_coordinate\<close> succeeds. The new bounds object has the
  name, standard name and units of the coordinate, no scalar coordinates, and
  \<^verbatim>\<open>dims = (coord, bd)\<close> where \<open>bd\<close> is a new \<^verbatim>\<open>DMBoundsDimension\<close> named \<open>s\<close>; its accessor
  \<^verbatim>\<open>coord\<close> returns the coordinate itself; and afterwards the attribute \<^verbatim>\<open>bounds\<close> of the
  coordinate refers to the new object, the coordinate being otherwise unchanged.
\<close>

theorem bounds_from_coordinate:
  assumes "coord < fresh st" and "c_axis (coords st coord) \<noteq> DMAxis_BOUNDS"
  shows "\<exists>b bd st'.
           DMCoordinateBounds_from_coordinate st coord (BoundsDimName s) = Inr (b, st')
         \<and> name (bounds_objs st' b) = c_name (coords st coord)
         \<and> standard_name (bounds_objs st' b) = c_standard_name (coords st coord)
         \<and> units (bounds_objs st' b) = c_units (coords st coord)
         \<and> dims (bounds_objs st' b) = [coord, bd]
         \<and> coords st' bd = DMBoundsDimension s BNone
         \<and> scalar_coords (bounds_objs st' b) = []
         \<and> DMCoordinateBounds_coord (coords st') (bounds_objs st' b) = Inr coord
         \<and> coords st' coord = set_bounds (coords st coord) (BRef b)
         \<and> c_bounds (coords st' coord) = BRef b"
proof -
  let ?bd = "fresh st"
  let ?st1 = "st\<lparr>coords := (coords st)(?bd := DMBoundsDimension s BNone), fresh := Suc ?bd\<rparr>"
  let ?c = "coords st coord"
  from assms(1) have ne: "coord \<noteq> ?bd" by simp
  have s1: "(case BoundsDimName s of BoundsDimObject r \<Rightarrow> (r, st)
            | BoundsDimName s \<Rightarrow> new_coord st (DMBoundsDimension s BNone)) = (?bd, ?st1)"
    by (simp add: new_coord_def)
  from ne assms(2) have a: "c_axis (coords ?st1 coord) \<noteq> DMAxis_BOUNDS" by simp
  have b: "c_axis (coords ?st1 ?bd) = DMAxis_BOUNDS" by simp
  let ?obj = "\<lparr>dims = [coord, ?bd], scalar_coords = [],
               axes = fill_axes (coords ?st1) empty_axes [coord, ?bd],
               phys_axes = fill_axes (coords ?st1) empty_axes [coord, ?bd],
               name = c_name ?c, standard_name = c_standard_name ?c, units = c_units ?c\<rparr>"
  have init: "DMCoordinateBounds_init (coords ?st1) (c_name ?c) (c_standard_name ?c) (c_units ?c)
                [coord, ?bd] [] = Inr ?obj"
    using a b by (rule DMCoordinateBounds_init_two)
  let ?b = "fresh ?st1"
  let ?st' = "?st1\<lparr>bounds_objs := (bounds_objs ?st1)(?b := ?obj), fresh := Suc ?b,
                   coords := (coords ?st1)(coord := set_bounds (coords ?st1 coord) (BRef ?b))\<rparr>"
  have r: "DMCoordinateBounds_from_coordinate st coord (BoundsDimName s) = Inr (?b, ?st')"
    using s1 init by (rule from_coordinate_result)
  have 1: "bounds_objs ?st' ?b = ?obj" by simp
  have 2: "coords ?st' ?bd = DMBoundsDimension s BNone" using ne by simp
  have 3: "coords ?st' coord = set_bounds ?c (BRef ?b)" using ne by simp
  have 4: "DMCoordinateBounds_coord (coords ?st') (bounds_objs ?st' ?b) = Inr coord"
    unfolding 1 DMCoordinateBounds_coord_def
    using assms(2) ne ne[symmetric] by (simp add: c_axis_set_bounds del: fill_axes.simps)
  have 5: "name (bounds_objs ?st' ?b) = c_name ?c"
    "standard_name (bounds_objs ?st' ?b) = c_standard_name ?c"
    "units (bounds_objs ?st' ?b) = c_units ?c"
    "dims (bounds_objs ?st' ?b) = [coord, ?bd]"
    "scalar_coords (bounds_objs ?st' ?b) = []"
    unfolding 1 by simp_all
  have 6: "c_bounds (coords ?st' coord) = BRef ?b"
    unfolding 3 by (rule c_bounds_set_bounds)
  show ?thesis
    apply (rule exI[of _ ?b])
    apply (rule exI[of _ ?bd])
    apply (rule exI[of _ ?st'])
    apply (intro conjI)
             apply (rule r)
            apply (rule 5(1))
           apply (rule 5(2))
          apply (rule 5(3))
         apply (rule 5(4))
        apply (rule 2)
       apply (rule 5(5))
      apply (rule 4)
     apply (rule 3)
    apply (rule 6)
    done
qed

theorem bounds_from_coordinate_witness:
  "\<exists>b bd st'.
     DMCoordinateBounds_from_coordinate example_store 0 (BoundsDimName ''lat_bnds'') = Inr (b, st')
   \<and> name (bounds_objs st' b) = ''lat'' \<and> standard_name (bounds_objs st' b) = ''latitude''
   \<and> units (bounds_objs st' b) = ''degrees_N''
   \<and> dims (bounds_objs st' b) = [0, bd] \<and> coords st' bd = DMBoundsDimension ''lat_bnds'' BNone
   \<and> DMCoordinateBounds_coord (coords st') (bounds_objs st' b) = Inr 0
   \<and> coords st' 0 = DMLatitudeCoordinate ''lat'' (BRef b)"
proof -
  have 1: "0 < fresh example_store" by (simp add: example_store_def)
  have 2: "c_axis (coords example_store 0) \<noteq> DMAxis_BOUNDS" by (simp add: example_store_def)
  have 3: "coords example_store 0 = DMLatitudeCoordinate ''lat'' BNone"
    by (simp add: example_store_def example_coords_def)
  from bounds_from_coordinate [OF 1 2, of "''lat_bnds''"] show ?thesis
    unfolding 3 by auto
qed

lemma class_of_DMBoundsDimension_axis:
  "class_of c = ''DMBoundsDimension'' \<Longrightarrow> c_axis c = DMAxis_BOUNDS"
  by (cases c) simp_all

lemma DMCoordinateBounds_init_fields:
  assumes "DMCoordinateBounds_init h n sn u ds scs = Inr obj"
  shows "dims obj = ds" and "scalar_coords obj = []" and "name obj = n"
    and "standard_name obj = sn" and "units obj = u"
    and "distinct (map (c_axis \<circ> h) (filter (\<lambda>c. c_axis (h c) \<noteq> DMAxis_OTHER) (ds @ scs)))"
proof -
  let ?self = "\<lparr>dims = ds, scalar_coords = scs, axes = Map.empty, phys_axes = Map.empty,
                name = n, standard_name = sn, units = u\<rparr>"
  from assms obtain d where d: "DMDimensions_post_init h ?self = Inr d" and o: "obj = d"
    and e: "scs = []"
    by (auto simp: DMCoordinateBounds_init_cases split: sum.splits if_splits)
  note r = post_init_result [OF d]
  show "dims obj = ds" unfolding o by (subst r) simp
  show "scalar_coords obj = []" unfolding o by (subst r) (simp add: e)
  show "name obj = n" unfolding o by (subst r) simp
  show "standard_name obj = sn" unfolding o by (subst r) simp
  show "units obj = u" unfolding o by (subst r) simp
  from d show "distinct (map (c_axis \<circ> h) (filter (\<lambda>c. c_axis (h c) \<noteq> DMAxis_OTHER) (ds @ scs)))"
    using post_init_ok_iff [of h ?self] by auto
qed

text \<open>
  Claim C10. An existing link plays no part in \<^verbatim>\<open>DMCoordinateBounds.from_coordinate\<close>, given
  a name or a \<^verbatim>\<open>DMBoundsDimension\<close> instance. The call ends as it does on the same store
  with the attribute \<^verbatim>\<open>bounds\<close> of the coordinate reset to \<^verbatim>\<open>None\<close> (the same error, or the
  same reference to the new object). For a coordinate of the store whose axis kind is not
  \<^verbatim>\<open>BOUNDS\<close> it succeeds, whatever the attribute held before. When it succeeds, the call has
  created one \<^verbatim>\<open>DMCoordinateBounds\<close> object, which is none of the objects that existed
  before: it has the name, standard name and units of the coordinate, no scalar
  coordinates, \<^verbatim>\<open>dims = (coord, bd)\<close> with \<open>bd\<close> the given instance or a new
  \<^verbatim>\<open>DMBoundsDimension\<close> of the given name, and the coordinate as its \<^verbatim>\<open>coord\<close>; the attribute
  \<^verbatim>\<open>bounds\<close> of the coordinate refers to it, so a previous reference is overwritten, and
  the bounds objects that existed before are unchanged.
\<close>

theorem from_coordinate_relinks:
  assumes "bounds_dim_ok st bounds_dim"
  shows "map_sum id fst (DMCoordinateBounds_from_coordinate st coord bounds_dim)
     = map_sum id fst (DMCoordinateBounds_from_coordinate
         (st\<lparr>coords := (coords st)(coord := set_bounds (coords st coord) BNone)\<rparr>) coord bounds_dim)
   \<and> (coord < fresh st \<and> c_axis (coords st coord) \<noteq> DMAxis_BOUNDS \<longrightarrow>
         (\<exists>b st'. DMCoordinateBounds_from_coordinate st coord bounds_dim = Inr (b, st')))
   \<and> (\<forall>b st'. DMCoordinateBounds_from_coordinate st coord bounds_dim = Inr (b, st') \<longrightarrow>
         c_bounds (coords st' coord) = BRef b \<and> fresh st \<le> b \<and> fresh st' = Suc b
         \<and> name (bounds_objs st' b) = c_name (coords st coord)
         \<and> standard_name (bounds_objs st' b) = c_standard_name (coords st coord)
         \<and> units (bounds_objs st' b) = c_units (coords st coord)
         \<and> scalar_coords (bounds_objs st' b) = []
         \<and> (\<exists>bd. dims (bounds_objs st' b) = [coord, bd] \<and> bd \<noteq> coord
                \<and> (case bounds_dim of
                      BoundsDimObject r \<Rightarrow> bd = r
                    | BoundsDimName s \<Rightarrow>
                        bd = fresh st \<and> coords st' bd = DMBoundsDimension s BNone))
         \<and> DMCoordinateBounds_coord (coords st') (bounds_objs st' b) = Inr coord
         \<and> coords st' coord = set_bounds (coords st coord) (BRef b)
         \<and> (\<forall>old < fresh st. c_bounds (coords st' coord) \<noteq> BRef old
               \<and> bounds_objs st' old = bounds_objs st old))"
proof (intro conjI)
  let ?st0 = "st\<lparr>coords := (coords st)(coord := set_bounds (coords st coord) BNone)\<rparr>"
  obtain bd st1 where s1: "(case bounds_dim of BoundsDimObject r \<Rightarrow> (r, st)
      | BoundsDimName s \<Rightarrow> new_coord st (DMBoundsDimension s BNone)) = (bd, st1)"
    by (cases "case bounds_dim of BoundsDimObject r \<Rightarrow> (r, st)
      | BoundsDimName s \<Rightarrow> new_coord st (DMBoundsDimension s BNone)")
  obtain bd0 st01 where s01: "(case bounds_dim of BoundsDimObject r \<Rightarrow> (r, ?st0)
      | BoundsDimName s \<Rightarrow> new_coord ?st0 (DMBoundsDimension s BNone)) = (bd0, st01)"
    by (cases "case bounds_dim of BoundsDimObject r \<Rightarrow> (r, ?st0)
      | BoundsDimName s \<Rightarrow> new_coord ?st0 (DMBoundsDimension s BNone)")
  from s1 s01 have bd: "bd0 = bd" and fr: "fresh st01 = fresh st1"
    and ax: "\<And>r. c_axis (coords st01 r) = c_axis (coords st1 r)"
    by (cases bounds_dim; auto simp: new_coord_def c_axis_set_bounds)+
  have init: "DMCoordinateBounds_init (coords st01) n sn u [coord, bd] []
            = DMCoordinateBounds_init (coords st1) n sn u [coord, bd] []" for n sn u
    by (rule DMCoordinateBounds_init_cong) (simp add: ax)
  have nm: "c_name (coords ?st0 coord) = c_name (coords st coord)"
    "c_standard_name (coords ?st0 coord) = c_standard_name (coords st coord)"
    "c_units (coords ?st0 coord) = c_units (coords st coord)"
    by (simp_all add: c_name_set_bounds c_standard_name_set_bounds c_units_set_bounds)
  let ?init = "DMCoordinateBounds_init (coords st1) (c_name (coords st coord))
           (c_standard_name (coords st coord)) (c_units (coords st coord)) [coord, bd] []"
  have i0: "DMCoordinateBounds_init (coords st01) (c_name (coords ?st0 coord))
           (c_standard_name (coords ?st0 coord)) (c_units (coords ?st0 coord)) [coord, bd] []
          = ?init"
    unfolding nm by (rule init)
  from s1 have f1: "fresh st \<le> fresh st1"
    and b1: "bounds_objs st1 = bounds_objs st"
    by (cases bounds_dim; auto simp: new_coord_def)+
  from s1 assms have bdax: "c_axis (coords st1 bd) = DMAxis_BOUNDS"
    by (cases bounds_dim)
       (auto simp: new_coord_def bounds_dim_ok_def class_of_DMBoundsDimension_axis)
  from s1 have same: "\<And>r. r \<noteq> bd \<Longrightarrow> coords st1 r = coords st r"
    by (cases bounds_dim; auto simp: new_coord_def)
  show "map_sum id fst (DMCoordinateBounds_from_coordinate st coord bounds_dim)
     = map_sum id fst (DMCoordinateBounds_from_coordinate ?st0 coord bounds_dim)"
  proof (cases ?init)
    case (Inl e)
    from from_coordinate_error [OF s1 Inl]
      from_coordinate_error [OF s01 [unfolded bd] i0 [unfolded Inl]]
    show ?thesis by simp
  next
    case (Inr obj)
    from from_coordinate_result [OF s1 Inr]
      from_coordinate_result [OF s01 [unfolded bd] i0 [unfolded Inr]]
    show ?thesis by (simp add: fr)
  qed
  show "coord < fresh st \<and> c_axis (coords st coord) \<noteq> DMAxis_BOUNDS \<longrightarrow>
         (\<exists>b st'. DMCoordinateBounds_from_coordinate st coord bounds_dim = Inr (b, st'))"
  proof
    assume h: "coord < fresh st \<and> c_axis (coords st coord) \<noteq> DMAxis_BOUNDS"
    with s1 have "c_axis (coords st1 coord) \<noteq> DMAxis_BOUNDS"
      by (cases bounds_dim; auto simp: new_coord_def)
    from DMCoordinateBounds_init_two [OF this bdax]
    obtain obj where "?init = Inr obj" by blast
    from from_coordinate_result [OF s1 this]
    show "\<exists>b st'. DMCoordinateBounds_from_coordinate st coord bounds_dim = Inr (b, st')"
      by blast
  qed
  show "\<forall>b st'. DMCoordinateBounds_from_coordinate st coord bounds_dim = Inr (b, st') \<longrightarrow>
         c_bounds (coords st' coord) = BRef b \<and> fresh st \<le> b \<and> fresh st' = Suc b
         \<and> name (bounds_objs st' b) = c_name (coords st coord)
         \<and> standard_name (bounds_objs st' b) = c_standard_name (coords st coord)
         \<and> units (bounds_objs st' b) = c_units (coords st coord)
         \<and> scalar_coords (bounds_objs st' b) = []
         \<and> (\<exists>bd. dims (bounds_objs st' b) = [coord, bd] \<and> bd \<noteq> coord
                \<and> (case bounds_dim of
                      BoundsDimObject r \<Rightarrow> bd = r
                    | BoundsDimName s \<Rightarrow>
                        bd = fresh st \<and> coords st' bd = DMBoundsDimension s BNone))
         \<and> DMCoordinateBounds_coord (coords st') (bounds_objs st' b) = Inr coord
         \<and> coords st' coord = set_bounds (coords st coord) (BRef b)
         \<and> (\<forall>old < fresh st. c_bounds (coords st' coord) \<noteq> BRef old
               \<and> bounds_objs st' old = bounds_objs st old)"
  proof (intro allI impI)
    fix b st'
    assume r: "DMCoordinateBounds_from_coordinate st coord bounds_dim = Inr (b, st')"
    from r obtain obj where io: "?init = Inr obj"
      using from_coordinate_error [OF s1] by (cases ?init) auto
    from from_coordinate_result [OF s1 io] r have b: "b = fresh st1"
      and st': "st' = st1\<lparr>bounds_objs := (bounds_objs st1)(fresh st1 := obj),
                    fresh := Suc (fresh st1),
                    coords := (coords st1)(coord := set_bounds (coords st1 coord) (BRef (fresh st1)))\<rparr>"
      by simp_all
    note flds = DMCoordinateBounds_init_fields [OF io]
    from flds(6) bdax have cax: "c_axis (coords st1 coord) \<noteq> DMAxis_BOUNDS"
      by (auto split: if_splits)
    with bdax have cne: "bd \<noteq> coord" by auto
    from same [OF cne [symmetric]] have c1: "coords st1 coord = coords st coord" .
    from st' b have ob: "bounds_objs st' b = obj" by simp
    from st' b c1 have c: "coords st' coord = set_bounds (coords st coord) (BRef b)" by simp
    from st' cne have cb: "coords st' bd = coords st1 bd" by simp
    from st' b have bo: "\<And>old. old \<noteq> b \<Longrightarrow> bounds_objs st' old = bounds_objs st1 old" by simp
    from c have 1: "c_bounds (coords st' coord) = BRef b" by (simp add: c_bounds_set_bounds)
    from b f1 have 2: "fresh st \<le> b" by simp
    from st' b have 3: "fresh st' = Suc b" by simp
    have 4: "name (bounds_objs st' b) = c_name (coords st coord)"
      "standard_name (bounds_objs st' b) = c_standard_name (coords st coord)"
      "units (bounds_objs st' b) = c_units (coords st coord)"
      "scalar_coords (bounds_objs st' b) = []"
      unfolding ob by (rule flds)+
    have d: "dims (bounds_objs st' b) = [coord, bd]" unfolding ob by (rule flds)
    have k: "case bounds_dim of
               BoundsDimObject r \<Rightarrow> bd = r
             | BoundsDimName s \<Rightarrow> bd = fresh st \<and> coords st' bd = DMBoundsDimension s BNone"
      using s1 cb by (cases bounds_dim) (auto simp: new_coord_def)
    from d cne k have 5: "\<exists>bd. dims (bounds_objs st' b) = [coord, bd] \<and> bd \<noteq> coord
                \<and> (case bounds_dim of
                      BoundsDimObject r \<Rightarrow> bd = r
                    | BoundsDimName s \<Rightarrow>
                        bd = fresh st \<and> coords st' bd = DMBoundsDimension s BNone)"
      by blast
    from cax c1 have "c_axis (coords st' coord) \<noteq> DMAxis_BOUNDS"
      by (simp add: c c_axis_set_bounds)
    then have 6: "DMCoordinateBounds_coord (coords st') (bounds_objs st' b) = Inr coord"
      by (simp add: DMCoordinateBounds_coord_def d)
    have 7: "c_bounds (coords st' coord) \<noteq> BRef old \<and> bounds_objs st' old = bounds_objs st old"
      if "old < fresh st" for old
    proof -
      from that b f1 have "old \<noteq> b" by simp
      with 1 bo b1 show ?thesis by simp
    qed
    from 1 2 3 4 5 6 c 7
    show "c_bounds (coords st' coord) = BRef b \<and> fresh st \<le> b \<and> fresh st' = Suc b
         \<and> name (bounds_objs st' b) = c_name (coords st coord)
         \<and> standard_name (bounds_objs st' b) = c_standard_name (coords st coord)
         \<and> units (bounds_objs st' b) = c_units (coords st coord)
         \<and> scalar_coords (bounds_objs st' b) = []
         \<and> (\<exists>bd. dims (bounds_objs st' b) = [coord, bd] \<and> bd \<noteq> coord
                \<and> (case bounds_dim of
                      BoundsDimObject r \<Rightarrow> bd = r
                    | BoundsDimName s \<Rightarrow>
                        bd = fresh st \<and> coords st' bd = DMBoundsDimension s BNone))
         \<and> DMCoordinateBounds_coord (coords st') (bounds_objs st' b) = Inr coord
         \<and> coords st' coord = set_bounds (coords st coord) (BRef b)
         \<and> (\<forall>old < fresh st. c_bounds (coords st' coord) \<noteq> BRef old
               \<and> bounds_objs st' old = bounds_objs st old)"
      by (intro conjI allI impI) blast+
  qed
qed

theorem from_coordinate_relinks_witness:
  "c_bounds (coords example_store 6) = BRef 9
   \<and> (\<exists>b st'. DMCoordinateBounds_from_coordinate example_store 6 (BoundsDimObject 5) = Inr (b, st')
         \<and> c_bounds (coords st' 6) = BRef b \<and> b \<noteq> 9 \<and> fresh st' = Suc b
         \<and> 10 \<le> b
         \<and> name (bounds_objs st' b) = ''lev''
         \<and> standard_name (bounds_objs st' b) = ''altitude''
         \<and> units (bounds_objs st' b) = ''m''
         \<and> scalar_coords (bounds_objs st' b) = []
         \<and> dims (bounds_objs st' b) = [6, 5]
         \<and> DMCoordinateBounds_coord (coords st') (bounds_objs st' b) = Inr 6
         \<and> coords st' 6 = DMVerticalCoordinate ''lev'' ''altitude'' ''m'' ''up'' (BRef b)
         \<and> bounds_objs st' 9 = bounds_objs example_store 9)"
proof -
  have 0: "c_bounds (coords example_store 6) = BRef 9"
    by (simp add: example_store_def example_coords_def)
  have c6: "coords example_store 6 = DMVerticalCoordinate ''lev'' ''altitude'' ''m'' ''up'' (BRef 9)"
    by (simp add: example_store_def example_coords_def)
  have ok: "bounds_dim_ok example_store (BoundsDimObject 5)"
    by (simp add: bounds_dim_ok_def example_store_def example_coords_def)
  have pre: "6 < fresh example_store \<and> c_axis (coords example_store 6) \<noteq> DMAxis_BOUNDS"
    by (simp add: example_store_def)
  have f: "fresh example_store = 10" by (simp add: example_store_def)
  note t = from_coordinate_relinks [OF ok, of 6]
  from t pre obtain b st' where
    r: "DMCoordinateBounds_from_coordinate example_store 6 (BoundsDimObject 5) = Inr (b, st')"
    by blast
  from t r have p: "c_bounds (coords st' 6) = BRef b" "fresh example_store \<le> b"
    "fresh st' = Suc b"
    "name (bounds_objs st' b) = c_name (coords example_store 6)"
    "standard_name (bounds_objs st' b) = c_standard_name (coords example_store 6)"
    "units (bounds_objs st' b) = c_units (coords example_store 6)"
    "scalar_coords (bounds_objs st' b) = []"
    "\<exists>bd. dims (bounds_objs st' b) = [6, bd] \<and> bd \<noteq> 6
          \<and> (case BoundsDimObject 5 of BoundsDimObject r \<Rightarrow> bd = r
              | BoundsDimName s \<Rightarrow> bd = fresh example_store
                  \<and> coords st' bd = DMBoundsDimension s BNone)"
    "DMCoordinateBounds_coord (coords st') (bounds_objs st' b) = Inr 6"
    "coords st' 6 = set_bounds (coords example_store 6) (BRef b)"
    "\<forall>old < fresh example_store. c_bounds (coords st' 6) \<noteq> BRef old
        \<and> bounds_objs st' old = bounds_objs example_store old"
    by blast+
  from p(8) have d: "dims (bounds_objs st' b) = [6, 5]" by auto
  from p(11) f have o: "bounds_objs st' 9 = bounds_objs example_store 9" by simp
  from p(2) f have nb: "b \<noteq> 9" "10 \<le> b" by simp_all
  from 0 r p(1) p(3) p(4) p(5) p(6) p(7) d p(9) p(10) o nb show ?thesis
    unfolding c6 by (intro conjI exI[of _ b] exI[of _ st']) simp_all
qed

subsection \<open>\<^verbatim>\<open>replace_date_range\<close>\<close>

lemma replace_date_range_static:
  "DMDimensions_is_static (coords st) self = Inr True \<Longrightarrow>
     DMDimensions_replace_date_range st self new_range = (Inl AssertionError, st, self)"
  by (simp add: DMDimensions_replace_date_range_def)

lemma replace_date_range_never_completes:
  "fst (DMDimensions_replace_date_range st self new_range) \<noteq> Inr ()"
  by (auto simp: DMDimensions_replace_date_range_def DMDimensions_set_T_def Let_def
      split: sum.splits bool.splits option.splits prod.splits)

text \<open>
  Claim C1, evaluated on an aggregate that is not static: \<^verbatim>\<open>dims\<close> holds the latitude and the
  time coordinate of the examples, whose range is not \<^verbatim>\<open>FXDateRange\<close>. The call does not
  complete: the assignment to the property \<^verbatim>\<open>T\<close> raises \<^verbatim>\<open>AttributeError\<close>, the T entry of
  \<^verbatim>\<open>axes\<close> is still the old coordinate, and its range is the old range.
\<close>

theorem replace_date_range_raises:
  "case DMDimensions_init example_coords [0, 2] [] of
     Inl e \<Rightarrow> False
   | Inr d \<Rightarrow>
       DMDimensions_is_static example_coords d = Inr False
     \<and> (case DMDimensions_replace_date_range example_store d (Some (DateRange 2000 2010)) of
          (res, st', d') \<Rightarrow>
            res = Inl AttributeError \<and> DMDimensions_T d' = Inr (Some 2)
          \<and> c_range (coords st' 2) = Inr (Some (DateRange 1980 1990)))"
  by (simp add: DMDimensions_init_def DMDimensions_post_init_def Let_def
      DMDimensions_is_static_def DMDimensions_T_def getitem_def empty_axes_def
      spatiotemporal_names_def DMDimensions_replace_date_range_def DMDimensions_set_T_def
      new_coord_def example_store_def example_coords_def)

subsection \<open>Equality\<close>

lemma bounds_item_eq_refl: "bounds_item_eq beq b b = Some True"
  by (simp add: bounds_item_eq_def)

text \<open>
  Claim C8. Two \<^verbatim>\<open>DMParametricVerticalCoordinate\<close> instances with the same values in every
  field except \<^verbatim>\<open>formula_terms\<close> compare equal, and two \<^verbatim>\<open>DMTimeCoordinate\<close> instances that
  differ in \<^verbatim>\<open>range\<close> alone compare unequal, whatever the comparison of bounds objects does.
\<close>

theorem coord_eq_fields:
  "coord_eq beq (DMParametricVerticalCoordinate n sn u p b csn lgn ft)
                (DMParametricVerticalCoordinate n sn u p b csn lgn ft') = Some True
   \<and> (r \<noteq> r' \<longrightarrow>
        coord_eq beq (DMTimeCoordinate n u cal r f b) (DMTimeCoordinate n u cal r' f b)
          = Some False)"
  by (simp add: coord_eq_def item_eq_def bounds_item_eq_refl)

theorem coord_eq_fields_witness:
  "coord_eq (\<lambda>x y. None)
     (DMParametricVerticalCoordinate ''lev'' ''atmosphere_sigma_coordinate'' ''1'' ''down''
        (BRef 9) '''' ''sigma'' (Some ''sigma: lev ps: ps ptop: ptop''))
     (DMParametricVerticalCoordinate ''lev'' ''atmosphere_sigma_coordinate'' ''1'' ''down''
        (BRef 9) '''' ''sigma'' (Some ''sigma: lev ps: PS ptop: PTOP'')) = Some True
   \<and> Some (DateRange 1980 1990) \<noteq> Some (DateRange 2000 2010)
   \<and> coord_eq (\<lambda>x y. None)
        (DMTimeCoordinate ''time'' ''days since 1970-01-01'' ''noleap''
           (Some (DateRange 1980 1990)) (Some ''mon'') BNone)
        (DMTimeCoordinate ''time'' ''days since 1970-01-01'' ''noleap''
           (Some (DateRange 2000 2010)) (Some ''mon'') BNone) = Some False"
  using coord_eq_fields [of "\<lambda>x y. None" "''lev''" "''atmosphere_sigma_coordinate''" "''1''" "''down''"
      "BRef 9" "''''" "''sigma''" "Some ''sigma: lev ps: ps ptop: ptop''"
      "Some ''sigma: lev ps: PS ptop: PTOP''"
      "Some (DateRange 1980 1990)" "Some (DateRange 2000 2010)"]
    coord_eq_fields [of "\<lambda>x y. None" "''time''" "''''" "''days since 1970-01-01''" "''''" BNone "''''" "''''"
      None None "Some (DateRange 1980 1990)" "Some (DateRange 2000 2010)" "''noleap''"
      "Some ''mon''"]
  by simp

subsection \<open>The scalar coordinate factory\<close>

lemma scalar_from_coordinate_no_bounds:
  assumes "issubclass cls (coords st coord)" and "c_bounds (coords st coord) = BNone"
    and "coord < fresh st"
  shows "case DMScalarCoordinateMixin_from_coordinate conv cls st coord val of
           Inl e \<Rightarrow> False
         | Inr (r, st') \<Rightarrow>
             r = fresh st
           \<and> c_name (coords st' r) = c_name (coords st coord)
           \<and> c_standard_name (coords st' r) = c_standard_name (coords st coord)
           \<and> c_units (coords st' r) = c_units (coords st coord)
           \<and> c_axis (coords st' r) = c_axis (coords st coord)
           \<and> c_bounds (coords st' r) = c_bounds (coords st coord)
           \<and> c_value (coords st' r) = Some val
           \<and> coords st' coord = coords st coord"
  using assms
  by (cases cls; cases "coords st coord")
     (simp_all add: DMScalarCoordinateMixin_from_coordinate_def issubclass_def new_coord_def)

text \<open>
  Claim C5, evaluated on a coordinate that has bounds: the vertical coordinate of the
  examples, whose attribute \<^verbatim>\<open>bounds\<close> refers to a \<^verbatim>\<open>DMCoordinateBounds\<close> object that in turn
  has the coordinate in \<^verbatim>\<open>dims\<close>. Whatever \<^verbatim>\<open>dataclasses.asdict\<close> makes of the bounds object,
  the call either raises \<^verbatim>\<open>RecursionError\<close> or returns a scalar coordinate whose \<^verbatim>\<open>bounds\<close> is
  not the \<^verbatim>\<open>bounds\<close> of the source coordinate.
\<close>

theorem scalar_from_coordinate_with_bounds:
  "case DMScalarCoordinateMixin_from_coordinate conv DMScalarVerticalCoordinate_class
          example_store 6 (Some (IntVal 500)) of
     Inl e \<Rightarrow> e = RecursionError
   | Inr (r, st') \<Rightarrow> c_bounds (coords st' r) \<noteq> c_bounds (coords example_store 6)"
  by (cases "conv 9")
     (simp_all add: DMScalarCoordinateMixin_from_coordinate_def issubclass_def new_coord_def
        example_store_def example_coords_def)

end
